theory Spec2Isabelle
  imports Complex_Main
begin

section \<open>Numbers and vectors\<close>

text \<open>
  The simulation core computes on C \<^verbatim>\<open>float\<close> values (with \<^verbatim>\<open>double\<close>
  intermediates). Both are modelled by \<^typ>\<open>real\<close>: the embedding follows the
  arithmetic expressions, the comparisons and the control flow of the source exactly,
  and leaves rounding, infinities and NaN outside the model. A C array of floats is a
  \<^typ>\<open>real list\<close>.

  One result depends on the values that \<^typ>\<open>real\<close> does not have: the comparison of
  the integrated voltage of the Izhikevich neuron with the spike peak is false on NaN.
  The integrator and the Izhikevich neuron are therefore embedded a second time, over
  values with the infinities and NaN, in the section on overflow below.
\<close>

type_synonym cfloat = real

subsection \<open>The integration step in the words of the specification\<close>

definition vadd :: "cfloat list \<Rightarrow> cfloat list \<Rightarrow> cfloat list" where
  "vadd xs ys = map2 (+) xs ys"

definition vscale :: "cfloat \<Rightarrow> cfloat list \<Rightarrow> cfloat list" where
  "vscale c xs = map ((*) c) xs"

text \<open>
  Specification 4.1: k1 = f(y), k2 = f(y + dt/2 k1), k3 = f(y + dt/2 k2),
  k4 = f(y + dt k3), then y becomes y + dt/6 (k1 + 2 k2 + 2 k3 + k4).
\<close>

definition stage2 :: "(cfloat list \<Rightarrow> cfloat list) \<Rightarrow> cfloat \<Rightarrow> cfloat list \<Rightarrow> cfloat list" where
  "stage2 f h y = vadd y (vscale (h / 2) (f y))"

definition stage3 :: "(cfloat list \<Rightarrow> cfloat list) \<Rightarrow> cfloat \<Rightarrow> cfloat list \<Rightarrow> cfloat list" where
  "stage3 f h y = vadd y (vscale (h / 2) (f (stage2 f h y)))"

definition stage4 :: "(cfloat list \<Rightarrow> cfloat list) \<Rightarrow> cfloat \<Rightarrow> cfloat list \<Rightarrow> cfloat list" where
  "stage4 f h y = vadd y (vscale h (f (stage3 f h y)))"

definition rk4_step :: "(cfloat list \<Rightarrow> cfloat list) \<Rightarrow> cfloat \<Rightarrow> cfloat list \<Rightarrow> cfloat list" where
  "rk4_step f h y =
     (let k1 = f y;
          k2 = f (stage2 f h y);
          k3 = f (stage3 f h y);
          k4 = f (stage4 f h y)
      in vadd y (vscale (h / 6) (vadd k1 (vadd (vscale 2 k2) (vadd (vscale 2 k3) k4)))))"

section \<open>The integrator (utils/rk4.h, rk4.c)\<close>

text \<open>
  \<^verbatim>\<open>DerivativeFunc\<close> is \<^verbatim>\<open>void (*)(const float *state, float *deriv, void *params)\<close>.
  The callback reads the state array, writes the \<open>n\<close> derivative values and may read and
  write the object behind \<^verbatim>\<open>params\<close>; here it takes the state and that object and
  returns the derivative array together with the object as it leaves it.

  The struct \<^verbatim>\<open>RK4\<close> keeps \<open>n\<close>, \<open>dt\<close> and the callback. The dimension is an
  \<^verbatim>\<open>int\<close> that the three models set to 1, 2 or 4; it is a natural number here. The
  scratch buffer with the four slope arrays and the temporary state is overwritten by
  every step before it is read, so the step binds these arrays locally. The object behind
  \<^verbatim>\<open>params\<close> is passed to the step by the owning model. The \<^verbatim>\<open>for\<close> loops over
  \<open>i < n\<close> are maps over the indices; elements of the state beyond \<open>n\<close> are not
  touched.
\<close>

record 'p RK4 =
  rk_n :: nat
  rk_dt :: cfloat
  derivFunc :: "cfloat list \<Rightarrow> 'p \<Rightarrow> cfloat list \<times> 'p"

definition RK4Init ::
  "(cfloat list \<Rightarrow> 'p \<Rightarrow> cfloat list \<times> 'p) \<Rightarrow> nat \<Rightarrow> cfloat \<Rightarrow> bool \<Rightarrow> 'p RK4 option" where
  "RK4Init func n dt calloc_ok =
     (if \<not> calloc_ok then None
      else Some \<lparr>rk_n = n, rk_dt = dt, derivFunc = func\<rparr>)"

definition RK4Calculate :: "'p RK4 \<Rightarrow> 'p \<Rightarrow> cfloat list \<Rightarrow> cfloat list \<times> 'p" where
  "RK4Calculate integrator params state =
     (let n = rk_n integrator;
          dt = rk_dt integrator;
          dtHalf = dt * 0.5;
          f = derivFunc integrator;
          (k1, p1) = f state params;
          temp_state1 = map (\<lambda>i. state ! i + dtHalf * k1 ! i) [0..<n];
          (k2, p2) = f temp_state1 p1;
          temp_state2 = map (\<lambda>i. state ! i + dtHalf * k2 ! i) [0..<n];
          (k3, p3) = f temp_state2 p2;
          temp_state3 = map (\<lambda>i. state ! i + dt * k3 ! i) [0..<n];
          (k4, p4) = f temp_state3 p3;
          dtSixth = dt / 6.0
      in (map (\<lambda>i. state ! i + (k1 ! i + 2.0 * (k2 ! i + k3 ! i) + k4 ! i) * dtSixth) [0..<n]
            @ drop n state,
          p4))"

section \<open>The Izhikevich neuron (izhikevich_config.c, izhikevich_struct.h, izhikevich_model.c)\<close>

datatype IzNeuronType =
    CHATTERING
  | FAST_SPIKING
  | INTRINSICALLY_BURSTING
  | LOW_THRESHOLD_SPIKING
  | REGULAR_SPIKING
  | RESONATOR
  | THALAMO_CORTICAL

record IzhikevichConfig =
  cfg_a :: cfloat
  cfg_b :: cfloat
  cfg_c :: cfloat
  cfg_d :: cfloat
  cfg_type :: IzNeuronType

definition IZHIKEVICH_SPIKE_PEAK :: cfloat where
  "IZHIKEVICH_SPIKE_PEAK = 30.0"

text \<open>The array \<^verbatim>\<open>IZHIKEVICH_PARAMETERS[]\<close>, indexed by the enumeration.\<close>

fun IZHIKEVICH_PARAMETERS :: "IzNeuronType \<Rightarrow> IzhikevichConfig" where
  "IZHIKEVICH_PARAMETERS CHATTERING =
     \<lparr>cfg_a = 0.02, cfg_b = 0.20, cfg_c = -50.0, cfg_d = 2.0, cfg_type = CHATTERING\<rparr>"
| "IZHIKEVICH_PARAMETERS FAST_SPIKING =
     \<lparr>cfg_a = 0.10, cfg_b = 0.20, cfg_c = -65.0, cfg_d = 2.0, cfg_type = FAST_SPIKING\<rparr>"
| "IZHIKEVICH_PARAMETERS INTRINSICALLY_BURSTING =
     \<lparr>cfg_a = 0.02, cfg_b = 0.20, cfg_c = -55.0, cfg_d = 4.0, cfg_type = INTRINSICALLY_BURSTING\<rparr>"
| "IZHIKEVICH_PARAMETERS LOW_THRESHOLD_SPIKING =
     \<lparr>cfg_a = 0.02, cfg_b = 0.25, cfg_c = -65.0, cfg_d = 2.0, cfg_type = LOW_THRESHOLD_SPIKING\<rparr>"
| "IZHIKEVICH_PARAMETERS REGULAR_SPIKING =
     \<lparr>cfg_a = 0.02, cfg_b = 0.20, cfg_c = -65.0, cfg_d = 8.0, cfg_type = REGULAR_SPIKING\<rparr>"
| "IZHIKEVICH_PARAMETERS RESONATOR =
     \<lparr>cfg_a = 0.10, cfg_b = 0.26, cfg_c = -60.0, cfg_d = -1.0, cfg_type = RESONATOR\<rparr>"
| "IZHIKEVICH_PARAMETERS THALAMO_CORTICAL =
     \<lparr>cfg_a = 0.02, cfg_b = 0.25, cfg_c = -65.0, cfg_d = 0.05, cfg_type = THALAMO_CORTICAL\<rparr>"

text \<open>
  \<^verbatim>\<open>IzhikevichNeuron\<close> holds pointers only. \<^verbatim>\<open>AllocateMemory\<close> points
  \<open>a, b, c, d, Iext, Isyn\<close> at the six slots of \<^verbatim>\<open>internalBuffer\<close>, one each, and
  \<^verbatim>\<open>IzhikevichInitModel\<close> points \<open>state.v\<close> and \<open>state.u\<close> at \<^verbatim>\<open>stateVector[0]\<close>
  and \<^verbatim>\<open>stateVector[1]\<close>; no pointer is moved afterwards. The record has one field for
  each slot of the internal buffer (the one-letter members carry the prefix \<open>par_\<close>), and
  \<open>v\<close> and \<open>u\<close> are read and written as elements 0 and 1 of the state vector.
\<close>

record IzhikevichNeuron =
  par_a :: cfloat
  par_b :: cfloat
  par_c :: cfloat
  par_d :: cfloat
  Iext :: cfloat
  Isyn :: cfloat

record IzhikevichModel =
  iz_integrator :: "IzhikevichNeuron RK4"
  iz_stateVector :: "cfloat list"
  iz_neuron :: IzhikevichNeuron

definition IZ_SYS_DIM :: nat where
  "IZ_SYS_DIM = 2"

definition IzhikevichDerivatives ::
  "cfloat list \<Rightarrow> IzhikevichNeuron \<Rightarrow> cfloat list \<times> IzhikevichNeuron" where
  "IzhikevichDerivatives state neuron =
     (let v = state ! 0;
          u = state ! 1;
          a = par_a neuron;
          b = par_b neuron;
          I = Iext neuron + Isyn neuron
      in ([(0.04 * v * v) + (5.0 * v) + 140.0 - u + I,
           a * (b * v - u)],
          neuron))"

text \<open>
  \<open>calloc_ok k\<close> tells whether the \<open>k\<close>-th \<^verbatim>\<open>calloc\<close> of a construction succeeds
  (the model struct, the state vector, the internal buffer, the integrator's scratch
  buffer, in this order). A \<^verbatim>\<open>NULL\<close> result is \<open>None\<close>.
\<close>

definition IzhikevichInitModel ::
  "(nat \<Rightarrow> bool) \<Rightarrow> IzNeuronType \<Rightarrow> cfloat \<Rightarrow> IzhikevichModel option" where
  "IzhikevichInitModel calloc_ok type dt =
     (if \<not> calloc_ok 0 then None
      else if \<not> calloc_ok 1 then None
      else if \<not> calloc_ok 2 then None
      else
        let neuron = \<lparr>par_a = cfg_a (IZHIKEVICH_PARAMETERS type),
                      par_b = cfg_b (IZHIKEVICH_PARAMETERS type),
                      par_c = cfg_c (IZHIKEVICH_PARAMETERS type),
                      par_d = cfg_d (IZHIKEVICH_PARAMETERS type),
                      Iext = 0.0, Isyn = 0.0\<rparr>;
            v = par_c neuron - 10.0;
            u = par_b neuron * v
        in (case RK4Init IzhikevichDerivatives IZ_SYS_DIM dt (calloc_ok 3) of
              None \<Rightarrow> None
            | Some integrator \<Rightarrow>
                Some \<lparr>iz_integrator = integrator, iz_stateVector = [v, u], iz_neuron = neuron\<rparr>))"

fun IzhikevichSetExternalCurrent ::
  "IzhikevichModel option \<Rightarrow> cfloat \<Rightarrow> bool \<times> IzhikevichModel option" where
  "IzhikevichSetExternalCurrent None iExt' = (False, None)"
| "IzhikevichSetExternalCurrent (Some model) iExt' =
     (True, Some (model\<lparr>iz_neuron := (iz_neuron model)\<lparr>Iext := iExt'\<rparr>\<rparr>))"

fun IzhikevichUpdateModel :: "IzhikevichModel option \<Rightarrow> cfloat \<times> IzhikevichModel option" where
  "IzhikevichUpdateModel None = (0.00, None)"
| "IzhikevichUpdateModel (Some model) =
     (let (sv, nrn) = RK4Calculate (iz_integrator model) (iz_neuron model) (iz_stateVector model)
      in if sv ! 0 \<ge> IZHIKEVICH_SPIKE_PEAK
         then (IZHIKEVICH_SPIKE_PEAK,
               Some (model\<lparr>iz_stateVector := (sv[0 := par_c nrn])[1 := sv ! 1 + par_d nrn],
                           iz_neuron := nrn\<rparr>))
         else (sv ! 0, Some (model\<lparr>iz_stateVector := sv, iz_neuron := nrn\<rparr>)))"

fun IzhikevichGetRecovery :: "IzhikevichModel option \<Rightarrow> cfloat" where
  "IzhikevichGetRecovery None = 0.0"
| "IzhikevichGetRecovery (Some model) = iz_stateVector model ! 1"

text \<open>After a release the object no longer exists: the handle that remains is \<open>None\<close>.\<close>

fun IzhikevichFreeModel :: "IzhikevichModel option \<Rightarrow> bool \<times> IzhikevichModel option" where
  "IzhikevichFreeModel None = (False, None)"
| "IzhikevichFreeModel (Some model) = (True, None)"

section \<open>Overflow: the Izhikevich neuron over values with infinities and NaN\<close>

text \<open>
  The second embedding of the integrator and of the Izhikevich neuron. A value is a
  real number, one of the two infinities or NaN. The arithmetic is that of IEEE 754
  without its rounding of finite results: an operation is computed exactly and its
  result becomes an infinity when its magnitude reaches the overflow threshold of the
  format of the operation (the largest finite value plus half a unit in its last place,
  \<open>2^128 - 2^103\<close> for \<^verbatim>\<open>float\<close> and \<open>2^1024 - 2^970\<close> for \<^verbatim>\<open>double\<close>); an
  infinity minus itself and zero times an infinity are NaN; NaN propagates through
  every operation; every ordered comparison with NaN is false. Zero carries no sign,
  and a division by zero takes the sign of the dividend.
\<close>

datatype ieee = Finite real | PosInf | NegInf | NaN

definition FLT_OVERFLOW :: real where
  "FLT_OVERFLOW = 2 ^ 128 - 2 ^ 103"

definition DBL_OVERFLOW :: real where
  "DBL_OVERFLOW = 2 ^ 1024 - 2 ^ 970"

fun overflow_at :: "real \<Rightarrow> ieee \<Rightarrow> ieee" where
  "overflow_at t (Finite r) =
     (if r \<ge> t then PosInf else if r \<le> - t then NegInf else Finite r)"
| "overflow_at t PosInf = PosInf"
| "overflow_at t NegInf = NegInf"
| "overflow_at t NaN = NaN"

text \<open>A value stored in a \<^verbatim>\<open>float\<close>, and the result of an operation on doubles.\<close>

definition to_float :: "ieee \<Rightarrow> ieee" where
  "to_float x = overflow_at FLT_OVERFLOW x"

definition to_double :: "ieee \<Rightarrow> ieee" where
  "to_double x = overflow_at DBL_OVERFLOW x"

fun exact_neg :: "ieee \<Rightarrow> ieee" where
  "exact_neg (Finite r) = Finite (- r)"
| "exact_neg PosInf = NegInf"
| "exact_neg NegInf = PosInf"
| "exact_neg NaN = NaN"

fun exact_add :: "ieee \<Rightarrow> ieee \<Rightarrow> ieee" where
  "exact_add (Finite a) (Finite b) = Finite (a + b)"
| "exact_add (Finite a) PosInf = PosInf"
| "exact_add (Finite a) NegInf = NegInf"
| "exact_add PosInf (Finite b) = PosInf"
| "exact_add PosInf PosInf = PosInf"
| "exact_add PosInf NegInf = NaN"
| "exact_add NegInf (Finite b) = NegInf"
| "exact_add NegInf NegInf = NegInf"
| "exact_add NegInf PosInf = NaN"
| "exact_add NaN y = NaN"
| "exact_add x NaN = NaN"

definition infinity_of_sign :: "real \<Rightarrow> ieee" where
  "infinity_of_sign s = (if s = 0 then NaN else if s > 0 then PosInf else NegInf)"

fun exact_mul :: "ieee \<Rightarrow> ieee \<Rightarrow> ieee" where
  "exact_mul (Finite a) (Finite b) = Finite (a * b)"
| "exact_mul (Finite a) PosInf = infinity_of_sign a"
| "exact_mul (Finite a) NegInf = infinity_of_sign (- a)"
| "exact_mul PosInf (Finite b) = infinity_of_sign b"
| "exact_mul NegInf (Finite b) = infinity_of_sign (- b)"
| "exact_mul PosInf PosInf = PosInf"
| "exact_mul PosInf NegInf = NegInf"
| "exact_mul NegInf PosInf = NegInf"
| "exact_mul NegInf NegInf = PosInf"
| "exact_mul NaN y = NaN"
| "exact_mul x NaN = NaN"

fun exact_div :: "ieee \<Rightarrow> ieee \<Rightarrow> ieee" where
  "exact_div (Finite a) (Finite b) = (if b = 0 then infinity_of_sign a else Finite (a / b))"
| "exact_div (Finite a) PosInf = Finite 0"
| "exact_div (Finite a) NegInf = Finite 0"
| "exact_div PosInf (Finite b) = (if b < 0 then NegInf else PosInf)"
| "exact_div NegInf (Finite b) = (if b < 0 then PosInf else NegInf)"
| "exact_div PosInf PosInf = NaN"
| "exact_div PosInf NegInf = NaN"
| "exact_div NegInf PosInf = NaN"
| "exact_div NegInf NegInf = NaN"
| "exact_div NaN y = NaN"
| "exact_div x NaN = NaN"

text \<open>
  The operators of C. Between two \<^verbatim>\<open>float\<close> operands the operation is a
  \<^verbatim>\<open>float\<close> operation; when one operand is a \<^verbatim>\<open>double\<close> (every unsuffixed
  constant of the source is one) the other is converted, which changes no value, and
  the operation is a \<^verbatim>\<open>double\<close> operation.
\<close>

definition float_add :: "ieee \<Rightarrow> ieee \<Rightarrow> ieee" where
  "float_add x y = to_float (exact_add x y)"

definition float_sub :: "ieee \<Rightarrow> ieee \<Rightarrow> ieee" where
  "float_sub x y = to_float (exact_add x (exact_neg y))"

definition float_mul :: "ieee \<Rightarrow> ieee \<Rightarrow> ieee" where
  "float_mul x y = to_float (exact_mul x y)"

definition double_add :: "ieee \<Rightarrow> ieee \<Rightarrow> ieee" where
  "double_add x y = to_double (exact_add x y)"

definition double_sub :: "ieee \<Rightarrow> ieee \<Rightarrow> ieee" where
  "double_sub x y = to_double (exact_add x (exact_neg y))"

definition double_mul :: "ieee \<Rightarrow> ieee \<Rightarrow> ieee" where
  "double_mul x y = to_double (exact_mul x y)"

definition double_div :: "ieee \<Rightarrow> ieee \<Rightarrow> ieee" where
  "double_div x y = to_double (exact_div x y)"





text \<open>
  \<^verbatim>\<open>RK4Calculate\<close> with the types of its expressions: \<^verbatim>\<open>dt * 0.5\<close> and
  \<^verbatim>\<open>dt / 6.0\<close> are \<^verbatim>\<open>double\<close> operations stored in a \<^verbatim>\<open>float\<close>; the three
  temporary states are computed in \<^verbatim>\<open>float\<close>; in the update,
  \<^verbatim>\<open>k2[i] + k3[i]\<close> is a \<^verbatim>\<open>float\<close> sum, the product with \<^verbatim>\<open>2.0\<close> and all that
  follows are \<^verbatim>\<open>double\<close> operations, and \<^verbatim>\<open>+=\<close> stores the sum in a \<^verbatim>\<open>float\<close>.
\<close>

record 'p RK4_ieee =
  ieee_n :: nat
  ieee_dt :: ieee
  ieee_derivFunc :: "ieee list \<Rightarrow> 'p \<Rightarrow> ieee list \<times> 'p"

definition RK4Init_ieee ::
  "(ieee list \<Rightarrow> 'p \<Rightarrow> ieee list \<times> 'p) \<Rightarrow> nat \<Rightarrow> ieee \<Rightarrow> bool \<Rightarrow> 'p RK4_ieee option" where
  "RK4Init_ieee func n dt calloc_ok =
     (if \<not> calloc_ok then None
      else Some \<lparr>ieee_n = n, ieee_dt = dt, ieee_derivFunc = func\<rparr>)"

definition RK4Calculate_ieee :: "'p RK4_ieee \<Rightarrow> 'p \<Rightarrow> ieee list \<Rightarrow> ieee list \<times> 'p" where
  "RK4Calculate_ieee integrator params state =
     (let n = ieee_n integrator;
          dt = ieee_dt integrator;
          dtHalf = to_float (double_mul dt (Finite 0.5));
          f = ieee_derivFunc integrator;
          (k1, p1) = f state params;
          temp_state1 = map (\<lambda>i. float_add (state ! i) (float_mul dtHalf (k1 ! i))) [0..<n];
          (k2, p2) = f temp_state1 p1;
          temp_state2 = map (\<lambda>i. float_add (state ! i) (float_mul dtHalf (k2 ! i))) [0..<n];
          (k3, p3) = f temp_state2 p2;
          temp_state3 = map (\<lambda>i. float_add (state ! i) (float_mul dt (k3 ! i))) [0..<n];
          (k4, p4) = f temp_state3 p3;
          dtSixth = to_float (double_div dt (Finite 6.0))
      in (map (\<lambda>i. to_float
                     (double_add (state ! i)
                        (double_mul
                           (double_add
                              (double_add (k1 ! i)
                                 (double_mul (Finite 2.0) (float_add (k2 ! i) (k3 ! i))))
                              (k4 ! i))
                           dtSixth)))
            [0..<n]
            @ drop n state,
          p4))"

text \<open>
  The Izhikevich neuron. In \<^verbatim>\<open>IzhikevichDerivatives\<close> the sum of the two currents
  and the whole of \<^verbatim>\<open>a * (b * v - u)\<close> are \<^verbatim>\<open>float\<close> operations; the voltage
  derivative starts from the \<^verbatim>\<open>double\<close> constant \<^verbatim>\<open>QUAD_COEFF\<close>, so every operation
  of it is a \<^verbatim>\<open>double\<close> operation and the result is stored in a \<^verbatim>\<open>float\<close>. The
  parameters are the finite values of \<^verbatim>\<open>IZHIKEVICH_PARAMETERS[]\<close>.
\<close>

record IzhikevichNeuron_ieee =
  ieee_a :: ieee
  ieee_b :: ieee
  ieee_c :: ieee
  ieee_d :: ieee
  ieee_Iext :: ieee
  ieee_Isyn :: ieee

record IzhikevichModel_ieee =
  ieee_integrator :: "IzhikevichNeuron_ieee RK4_ieee"
  ieee_stateVector :: "ieee list"
  ieee_neuron :: IzhikevichNeuron_ieee

definition IzhikevichDerivatives_ieee ::
  "ieee list \<Rightarrow> IzhikevichNeuron_ieee \<Rightarrow> ieee list \<times> IzhikevichNeuron_ieee" where
  "IzhikevichDerivatives_ieee state neuron =
     (let v = state ! 0;
          u = state ! 1;
          a = ieee_a neuron;
          b = ieee_b neuron;
          I = float_add (ieee_Iext neuron) (ieee_Isyn neuron)
      in ([to_float
             (double_add
                (double_sub
                   (double_add
                      (double_add (double_mul (double_mul (Finite 0.04) v) v)
                         (double_mul (Finite 5.0) v))
                      (Finite 140.0))
                   u)
                I),
           float_mul a (float_sub (float_mul b v) u)],
          neuron))"

definition IzhikevichInitModel_ieee ::
  "(nat \<Rightarrow> bool) \<Rightarrow> IzNeuronType \<Rightarrow> ieee \<Rightarrow> IzhikevichModel_ieee option" where
  "IzhikevichInitModel_ieee calloc_ok type dt =
     (if \<not> calloc_ok 0 then None
      else if \<not> calloc_ok 1 then None
      else if \<not> calloc_ok 2 then None
      else
        let neuron = \<lparr>ieee_a = Finite (cfg_a (IZHIKEVICH_PARAMETERS type)),
                      ieee_b = Finite (cfg_b (IZHIKEVICH_PARAMETERS type)),
                      ieee_c = Finite (cfg_c (IZHIKEVICH_PARAMETERS type)),
                      ieee_d = Finite (cfg_d (IZHIKEVICH_PARAMETERS type)),
                      ieee_Iext = Finite 0.0, ieee_Isyn = Finite 0.0\<rparr>;
            v = to_float (double_sub (ieee_c neuron) (Finite 10.0));
            u = float_mul (ieee_b neuron) v
        in (case RK4Init_ieee IzhikevichDerivatives_ieee IZ_SYS_DIM dt (calloc_ok 3) of
              None \<Rightarrow> None
            | Some integrator \<Rightarrow>
                Some \<lparr>ieee_integrator = integrator, ieee_stateVector = [v, u],
                      ieee_neuron = neuron\<rparr>))"



section \<open>The Hodgkin-Huxley neuron (hodgkin_huxley_config.c, hodgkin_huxley_rates.c, hodgkin_huxley_model.c)\<close>

record HodgkinHuxleyConfig =
  restingPotential :: cfloat
  membraneCapacitancy :: cfloat
  leakReversal :: cfloat
  sodiumReversal :: cfloat
  potassiumReversal :: cfloat
  leakConductance :: cfloat
  sodiumConductance :: cfloat
  potassiumConductance :: cfloat

definition PI :: cfloat where
  "PI = 3.14159265358979323846"

definition HH_CONFIG :: HodgkinHuxleyConfig where
  "HH_CONFIG =
     \<lparr>restingPotential = -65.0,
      membraneCapacitancy = 9.0 * PI,
      leakReversal = 10.6,
      sodiumReversal = 115.0,
      potassiumReversal = -12.0,
      leakConductance = 2.7 * PI,
      sodiumConductance = 1080.0 * PI,
      potassiumConductance = 324.0 * PI\<rparr>"

definition AlphaM :: "cfloat \<Rightarrow> cfloat" where
  "AlphaM voltage =
     (if voltage = 25.0 then 1.0
      else (25.0 - voltage) / (10 * (exp ((25.0 - voltage) / 10.0) - 1)))"

definition BetaM :: "cfloat \<Rightarrow> cfloat" where
  "BetaM voltage = 4.0 * exp (- voltage / 18.0)"

definition AlphaH :: "cfloat \<Rightarrow> cfloat" where
  "AlphaH voltage = 0.07 * exp (- voltage / 20.0)"

definition BetaH :: "cfloat \<Rightarrow> cfloat" where
  "BetaH voltage = 1.0 / (exp ((30.0 - voltage) / 10.0) + 1)"

definition AlphaN :: "cfloat \<Rightarrow> cfloat" where
  "AlphaN voltage =
     (if voltage = 10.0 then 0.1
      else (10.0 - voltage) / (100.0 * (exp ((10.0 - voltage) / 10.0) - 1.0)))"

definition BetaN :: "cfloat \<Rightarrow> cfloat" where
  "BetaN voltage = 0.125 * exp (- voltage / 80.0)"

text \<open>
  \<^verbatim>\<open>HodgkinHuxleyNeuron\<close>: the parameters are plain members (\<open>C\<close> is \<open>par_C\<close> here);
  the five current pointers are set by \<^verbatim>\<open>AllocCurrents\<close> to the five slots of
  \<^verbatim>\<open>internalBuffer\<close>, one each, and stay there, so the record has one field for each
  slot. The state pointers \<open>v, m, h, n\<close> are elements 0 to 3 of the state vector.
\<close>

record HodgkinHuxleyNeuron =
  par_C :: cfloat
  gL :: cfloat
  eL :: cfloat
  eK :: cfloat
  gK :: cfloat
  eNa :: cfloat
  gNa :: cfloat
  iNa :: cfloat
  iK :: cfloat
  iL :: cfloat
  iSyn :: cfloat
  iExt :: cfloat

record HodgkinHuxleyModel =
  hh_integrator :: "HodgkinHuxleyNeuron RK4"
  hh_stateVector :: "cfloat list"
  hh_neuron :: HodgkinHuxleyNeuron

definition HH_SYS_DIM :: nat where
  "HH_SYS_DIM = 4"

definition RP :: cfloat where
  "RP = restingPotential HH_CONFIG"

definition GATE_REST_M :: cfloat where
  "GATE_REST_M = AlphaM RP / (AlphaM RP + BetaM RP)"

definition GATE_REST_H :: cfloat where
  "GATE_REST_H = AlphaH RP / (AlphaH RP + BetaH RP)"

definition GATE_REST_N :: cfloat where
  "GATE_REST_N = AlphaN RP / (AlphaN RP + BetaN RP)"

definition HodgkinHuxleyDerivatives ::
  "cfloat list \<Rightarrow> HodgkinHuxleyNeuron \<Rightarrow> cfloat list \<times> HodgkinHuxleyNeuron" where
  "HodgkinHuxleyDerivatives state neuron =
     (let v = state ! 0;
          m = state ! 1;
          h = state ! 2;
          n = state ! 3;
          iL' = gL neuron * (eL neuron - v);
          iK' = gK neuron * n * n * n * n * (eK neuron - v);
          iNa' = gNa neuron * m * m * m * h * (eNa neuron - v);
          I = iExt neuron + iSyn neuron;
          neuron' = neuron\<lparr>iL := iL', iK := iK', iNa := iNa'\<rparr>
      in ([((iNa' + iK' + iL') + I) / par_C neuron,
           AlphaM v * (1.0 - m) - BetaM v * m,
           AlphaH v * (1.0 - h) - BetaH v * h,
           AlphaN v * (1.0 - n) - BetaN v * n],
          neuron'))"

definition HodgkinHuxleyInitModel :: "(nat \<Rightarrow> bool) \<Rightarrow> cfloat \<Rightarrow> HodgkinHuxleyModel option" where
  "HodgkinHuxleyInitModel calloc_ok dt =
     (if \<not> calloc_ok 0 then None
      else if \<not> calloc_ok 1 then None
      else
        let stateVector = [restingPotential HH_CONFIG, GATE_REST_M, GATE_REST_H, GATE_REST_N]
        in if \<not> calloc_ok 2 then None
           else
             let neuron = \<lparr>par_C = membraneCapacitancy HH_CONFIG,
                           gL = leakConductance HH_CONFIG,
                           eL = leakReversal HH_CONFIG,
                           eK = potassiumReversal HH_CONFIG,
                           gK = potassiumConductance HH_CONFIG,
                           eNa = sodiumReversal HH_CONFIG,
                           gNa = sodiumConductance HH_CONFIG,
                           iNa = 0, iK = 0, iL = 0, iSyn = 0.0, iExt = 0.0\<rparr>
             in (case RK4Init HodgkinHuxleyDerivatives HH_SYS_DIM dt (calloc_ok 3) of
                   None \<Rightarrow> None
                 | Some integrator \<Rightarrow>
                     Some \<lparr>hh_integrator = integrator, hh_stateVector = stateVector,
                           hh_neuron = neuron\<rparr>))"

fun HodgkinHuxleySetExternalCurent ::
  "HodgkinHuxleyModel option \<Rightarrow> cfloat \<Rightarrow> bool \<times> HodgkinHuxleyModel option" where
  "HodgkinHuxleySetExternalCurent None iExt' = (False, None)"
| "HodgkinHuxleySetExternalCurent (Some model) iExt' =
     (True, Some (model\<lparr>hh_neuron := (hh_neuron model)\<lparr>iExt := iExt'\<rparr>\<rparr>))"

fun HodgkinHuxleyUpdateModel ::
  "HodgkinHuxleyModel option \<Rightarrow> cfloat \<times> HodgkinHuxleyModel option" where
  "HodgkinHuxleyUpdateModel None = (0.0, None)"
| "HodgkinHuxleyUpdateModel (Some model) =
     (let (sv, nrn) = RK4Calculate (hh_integrator model) (hh_neuron model) (hh_stateVector model)
      in (sv ! 0, Some (model\<lparr>hh_stateVector := sv, hh_neuron := nrn\<rparr>)))"

fun HodgkinHuxleyGetIK :: "HodgkinHuxleyModel option \<Rightarrow> cfloat" where
  "HodgkinHuxleyGetIK None = 0.0"
| "HodgkinHuxleyGetIK (Some model) = iK (hh_neuron model)"

fun HodgkinHuxleyGetINa :: "HodgkinHuxleyModel option \<Rightarrow> cfloat" where
  "HodgkinHuxleyGetINa None = 0.0"
| "HodgkinHuxleyGetINa (Some model) = iNa (hh_neuron model)"

fun HodgkinHuxleyGetILeak :: "HodgkinHuxleyModel option \<Rightarrow> cfloat" where
  "HodgkinHuxleyGetILeak None = 0.0"
| "HodgkinHuxleyGetILeak (Some model) = iL (hh_neuron model)"

fun HodgkinHuxleyGetMGate :: "HodgkinHuxleyModel option \<Rightarrow> cfloat" where
  "HodgkinHuxleyGetMGate None = 0.0"
| "HodgkinHuxleyGetMGate (Some model) = hh_stateVector model ! 1"

fun HodgkinHuxleyGetHGate :: "HodgkinHuxleyModel option \<Rightarrow> cfloat" where
  "HodgkinHuxleyGetHGate None = 0.0"
| "HodgkinHuxleyGetHGate (Some model) = hh_stateVector model ! 2"

fun HodgkinHuxleyGetNGate :: "HodgkinHuxleyModel option \<Rightarrow> cfloat" where
  "HodgkinHuxleyGetNGate None = 0.0"
| "HodgkinHuxleyGetNGate (Some model) = hh_stateVector model ! 3"

fun HodgkinHuxleyFreeModel ::
  "HodgkinHuxleyModel option \<Rightarrow> bool \<times> HodgkinHuxleyModel option" where
  "HodgkinHuxleyFreeModel None = (False, None)"
| "HodgkinHuxleyFreeModel (Some model) = (True, None)"

section \<open>The AMPA/GABA-A synapse (ampa_gaba_a_config.c, ampa_gaba_a_struct.h, ampa_gaba_a_model.c)\<close>

datatype AmpaGabaaSynapseType = AMPA | GABA_A

datatype NeuronModel = IZHIKEVICH_MODEL | HODGKIN_HUXLEY_MODEL

text \<open>
  \<^verbatim>\<open>IzhikevichSynapsConfig\<close> and \<^verbatim>\<open>HodgkinHuxleySynapseConfig\<close> have the same
  members; one record type serves both.
\<close>

record SynapseConfig =
  KP :: cfloat
  VP :: cfloat
  ampaConnectionRate :: cfloat
  ampaDisconnectionRate :: cfloat
  ampaReversalPotential :: cfloat
  ampaMaximumConductancy :: cfloat
  gaba_aConnectionRate :: cfloat
  gaba_aDisconnectionRate :: cfloat
  gaba_aReversalPotential :: cfloat
  gaba_aMaximumConductancy :: cfloat

definition T_MAX :: cfloat where
  "T_MAX = 1.0"

definition IZ_SYN_CFG :: SynapseConfig where
  "IZ_SYN_CFG =
     \<lparr>KP = 5.0, VP = 2.0,
      ampaConnectionRate = 1.1, ampaDisconnectionRate = 0.30,
      ampaReversalPotential = 0.0, ampaMaximumConductancy = 0.0,
      gaba_aConnectionRate = 5.0, gaba_aDisconnectionRate = 0.18,
      gaba_aReversalPotential = -80.0, gaba_aMaximumConductancy = 0.0\<rparr>"

definition HH_SYN_CFG :: SynapseConfig where
  "HH_SYN_CFG =
     \<lparr>KP = 5.0, VP = 62.0,
      ampaConnectionRate = 1.1, ampaDisconnectionRate = 0.19,
      ampaReversalPotential = 60.0, ampaMaximumConductancy = 0.0,
      gaba_aConnectionRate = 5.0, gaba_aDisconnectionRate = 0.18,
      gaba_aReversalPotential = -80.0, gaba_aMaximumConductancy = 0.0\<rparr>"

definition SYN_SYS_DIM :: nat where
  "SYN_SYS_DIM = 1"

definition INTERNAL_VARS :: nat where
  "INTERNAL_VARS = 12"

definition DEFAULT_VALUE :: cfloat where
  "DEFAULT_VALUE = 0.0"

definition DEFAULT_V_PRE :: cfloat where
  "DEFAULT_V_PRE = -70.0"

definition DEFAULT_V_POST :: cfloat where
  "DEFAULT_V_POST = -70.0"

text \<open>
  The synapse is the one model whose pointers are moved after construction and may
  point outside the model, so its memory is explicit. A \<^verbatim>\<open>float *\<close> of the synapse
  struct points either at a slot of the model's own \<^verbatim>\<open>internalBuffer\<close> or at a float
  of the caller (a neuron's voltage or current slot), named by an address. The caller's
  floats form the store \<open>heap\<close>. \<^verbatim>\<open>iSynPost\<close> is the one pointer that the code tests
  against \<^verbatim>\<open>NULL\<close>; it is \<open>None\<close> until a connection is made.
\<close>

datatype fptr = InternalBuffer nat | External nat

type_synonym heap = "nat \<Rightarrow> cfloat"

record AmpaGabaaSynapse =
  synCurrent :: fptr
  openChannels :: fptr
  ntConcentration :: fptr
  alphaRate :: fptr
  betaRate :: fptr
  eRev :: fptr
  gMax :: fptr
  vP :: fptr
  kP :: fptr
  tMax :: fptr
  vPre :: fptr
  vPost :: fptr
  iSynPost :: "fptr option"

text \<open>
  What the derivative callback reaches through its \<^verbatim>\<open>params\<close> pointer: the synapse
  struct, the internal buffer and the caller's floats.
\<close>

record SynapseMemory =
  mem_synapse :: AmpaGabaaSynapse
  mem_buffer :: "cfloat list"
  mem_ext :: heap

fun load :: "SynapseMemory \<Rightarrow> fptr \<Rightarrow> cfloat" where
  "load mem (InternalBuffer i) = mem_buffer mem ! i"
| "load mem (External a) = mem_ext mem a"

fun store :: "SynapseMemory \<Rightarrow> fptr \<Rightarrow> cfloat \<Rightarrow> SynapseMemory" where
  "store mem (InternalBuffer i) x = mem\<lparr>mem_buffer := (mem_buffer mem)[i := x]\<rparr>"
| "store mem (External a) x = mem\<lparr>mem_ext := (mem_ext mem)(a := x)\<rparr>"

record AmpaGabaaModel =
  syn_integrator :: "SynapseMemory RK4"
  syn_stateVector :: "cfloat list"
  syn_internalBuffer :: "cfloat list"
  synapse :: AmpaGabaaSynapse

definition memory_of :: "AmpaGabaaModel \<Rightarrow> heap \<Rightarrow> SynapseMemory" where
  "memory_of model ext =
     \<lparr>mem_synapse = synapse model, mem_buffer = syn_internalBuffer model, mem_ext = ext\<rparr>"

text \<open>
  \<^verbatim>\<open>SynapseAllocMemory\<close>: a zeroed buffer of \<^verbatim>\<open>INTERNAL_VARS\<close> floats, and every
  pointer of the struct set to the next slot (\<^verbatim>\<open>p++\<close>). \<^verbatim>\<open>openChannels\<close>, which
  \<^verbatim>\<open>AmpaGabaaInitModel\<close> had pointed at \<^verbatim>\<open>stateVector[0]\<close> just before, is pointed
  at slot 1 here. \<^verbatim>\<open>iSynPost\<close> keeps the \<^verbatim>\<open>NULL\<close> of the zeroed model struct.
  During construction every pointer points into the internal buffer: the stores of
  \<^verbatim>\<open>AmpaGabaaInitModel\<close> go through a memory whose floats of the caller are never
  read or written.
\<close>

definition SynapseAllocMemory :: "bool \<Rightarrow> (cfloat list \<times> AmpaGabaaSynapse) option" where
  "SynapseAllocMemory calloc_ok =
     (if \<not> calloc_ok then None
      else Some (replicate INTERNAL_VARS 0,
                 \<lparr>synCurrent = InternalBuffer 0,
                  openChannels = InternalBuffer 1,
                  ntConcentration = InternalBuffer 2,
                  alphaRate = InternalBuffer 3,
                  betaRate = InternalBuffer 4,
                  eRev = InternalBuffer 5,
                  gMax = InternalBuffer 6,
                  vP = InternalBuffer 7,
                  kP = InternalBuffer 8,
                  tMax = InternalBuffer 9,
                  vPre = InternalBuffer 10,
                  vPost = InternalBuffer 11,
                  iSynPost = None\<rparr>))"

definition AmpaGabaaDerivatives ::
  "cfloat list \<Rightarrow> SynapseMemory \<Rightarrow> cfloat list \<times> SynapseMemory" where
  "AmpaGabaaDerivatives state mem =
     (let syn = mem_synapse mem;
          r = state ! 0;
          vPre' = (if load mem (vPre syn) \<noteq> 0 then load mem (vPre syn) else DEFAULT_V_PRE);
          tMax' = load mem (tMax syn);
          kP' = load mem (kP syn);
          vP' = load mem (vP syn);
          t = tMax' / (1.0 + exp (- (vPre' - vP') / kP'));
          mem1 = store mem (ntConcentration syn) t;
          alpha = load mem1 (alphaRate syn);
          beta = load mem1 (betaRate syn)
      in ([alpha * t * (1.0 - r) - (beta * r)], mem1))"

definition AmpaGabaaInitModel ::
  "(nat \<Rightarrow> bool) \<Rightarrow> AmpaGabaaSynapseType \<Rightarrow> NeuronModel \<Rightarrow> cfloat \<Rightarrow> AmpaGabaaModel option" where
  "AmpaGabaaInitModel calloc_ok synType nrnType dt =
     (if \<not> calloc_ok 0 then None
      else if \<not> calloc_ok 1 then None
      else
        let stateVector = [DEFAULT_VALUE]
        in (case SynapseAllocMemory (calloc_ok 2) of
              None \<Rightarrow> None
            | Some (buffer0, syn) \<Rightarrow>
                let mem0 = \<lparr>mem_synapse = syn, mem_buffer = buffer0, mem_ext = (\<lambda>a. 0)\<rparr>;
                    mem1 = store mem0 (tMax syn) T_MAX;
                    cfg = (case nrnType of IZHIKEVICH_MODEL \<Rightarrow> IZ_SYN_CFG
                                         | HODGKIN_HUXLEY_MODEL \<Rightarrow> HH_SYN_CFG);
                    mem2 = store mem1 (kP syn) (KP cfg);
                    mem3 = store mem2 (vP syn) (VP cfg);
                    mem4 = (case synType of
                              AMPA \<Rightarrow>
                                store (store (store (store mem3
                                  (alphaRate syn) (ampaConnectionRate cfg))
                                  (betaRate syn) (ampaDisconnectionRate cfg))
                                  (eRev syn) (ampaReversalPotential cfg))
                                  (gMax syn) (ampaMaximumConductancy cfg)
                            | GABA_A \<Rightarrow>
                                store (store (store (store mem3
                                  (alphaRate syn) (gaba_aConnectionRate cfg))
                                  (betaRate syn) (gaba_aDisconnectionRate cfg))
                                  (eRev syn) (gaba_aReversalPotential cfg))
                                  (gMax syn) (gaba_aMaximumConductancy cfg));
                    mem5 = store mem4 (ntConcentration syn) DEFAULT_VALUE;
                    mem6 = store mem5 (synCurrent syn) DEFAULT_VALUE
                in (case RK4Init AmpaGabaaDerivatives SYN_SYS_DIM dt (calloc_ok 3) of
                      None \<Rightarrow> None
                    | Some integrator \<Rightarrow>
                        Some \<lparr>syn_integrator = integrator, syn_stateVector = stateVector,
                              syn_internalBuffer = mem_buffer mem6, synapse = syn\<rparr>)))"

definition null_model_message :: string where
  "null_model_message = ''Error: AmpaGabaaUpdateModel called with NULL model.''"

text \<open>
  The advance of the synapse: the result, the handle, the caller's floats after the
  call, and the lines written to \<^verbatim>\<open>stderr\<close> (each without its newline).
\<close>

fun AmpaGabaaUpdateModel ::
  "AmpaGabaaModel option \<Rightarrow> heap \<Rightarrow> bool \<times> AmpaGabaaModel option \<times> heap \<times> string list" where
  "AmpaGabaaUpdateModel None ext = (False, None, ext, [null_model_message])"
| "AmpaGabaaUpdateModel (Some model) ext =
     (let (sv, mem) = RK4Calculate (syn_integrator model) (memory_of model ext)
                        (syn_stateVector model);
          syn = mem_synapse mem;
          r = sv ! 0;
          gMax' = load mem (gMax syn);
          eRev' = load mem (eRev syn);
          vPost' = (if load mem (vPost syn) \<noteq> 0 then load mem (vPost syn) else DEFAULT_V_POST);
          iSyn' = gMax' * r * (eRev' - vPost');
          mem1 = store mem (synCurrent syn) iSyn';
          mem2 = (case iSynPost syn of
                    None \<Rightarrow> mem1
                  | Some p \<Rightarrow> store mem1 p (load mem1 p + iSyn'))
      in (True,
          Some (model\<lparr>syn_stateVector := sv, syn_internalBuffer := mem_buffer mem2\<rparr>),
          mem_ext mem2,
          []))"

text \<open>The three references of a connection are addresses of floats of the caller, or \<^verbatim>\<open>NULL\<close>.\<close>

fun AmpaGabaaConnectSynapse ::
  "AmpaGabaaModel option \<Rightarrow> nat option \<Rightarrow> nat option \<Rightarrow> nat option
     \<Rightarrow> bool \<times> AmpaGabaaModel option" where
  "AmpaGabaaConnectSynapse (Some model) (Some preVolt) (Some postVolt) (Some postIsyn) =
     (True,
      Some (model\<lparr>synapse := (synapse model)\<lparr>vPre := External preVolt,
                                               vPost := External postVolt,
                                               iSynPost := Some (External postIsyn)\<rparr>\<rparr>))"
| "AmpaGabaaConnectSynapse model preVolt postVolt postIsyn = (False, model)"

fun AmpaGabaaGetSynapticCurrent :: "AmpaGabaaModel option \<Rightarrow> heap \<Rightarrow> cfloat" where
  "AmpaGabaaGetSynapticCurrent None ext = 0.0"
| "AmpaGabaaGetSynapticCurrent (Some model) ext =
     load (memory_of model ext) (synCurrent (synapse model))"

fun AmpaGabaaSetMaximumConductancy ::
  "AmpaGabaaModel option \<Rightarrow> heap \<Rightarrow> cfloat \<Rightarrow> bool \<times> AmpaGabaaModel option \<times> heap" where
  "AmpaGabaaSetMaximumConductancy None ext g = (False, None, ext)"
| "AmpaGabaaSetMaximumConductancy (Some model) ext g =
     (let mem = store (memory_of model ext) (gMax (synapse model)) g
      in (True, Some (model\<lparr>syn_internalBuffer := mem_buffer mem\<rparr>), mem_ext mem))"

fun AmpaGabaaFreeModel :: "AmpaGabaaModel option \<Rightarrow> bool \<times> AmpaGabaaModel option" where
  "AmpaGabaaFreeModel None = (False, None)"
| "AmpaGabaaFreeModel (Some model) = (True, None)"

section \<open>Model invariants and the equations of the specification\<close>

text \<open>
  What construction establishes and no operation changes: the length of the state
  vector, the dimension and the callback of the integrator.
\<close>

definition iz_wf :: "IzhikevichModel \<Rightarrow> bool" where
  "iz_wf model \<longleftrightarrow>
     length (iz_stateVector model) = IZ_SYS_DIM \<and>
     rk_n (iz_integrator model) = IZ_SYS_DIM \<and>
     derivFunc (iz_integrator model) = IzhikevichDerivatives"

definition hh_wf :: "HodgkinHuxleyModel \<Rightarrow> bool" where
  "hh_wf model \<longleftrightarrow>
     length (hh_stateVector model) = HH_SYS_DIM \<and>
     rk_n (hh_integrator model) = HH_SYS_DIM \<and>
     derivFunc (hh_integrator model) = HodgkinHuxleyDerivatives"

text \<open>
  The pointers of a synapse: ten of them stay at the slots \<^verbatim>\<open>SynapseAllocMemory\<close>
  gave them; \<open>vPre\<close> and \<open>vPost\<close> are at their own slots 10 and 11 or, after a
  connection, at floats of the caller; \<open>iSynPost\<close> is \<^verbatim>\<open>NULL\<close> or at a float of the
  caller.
\<close>

definition syn_layout :: "AmpaGabaaSynapse \<Rightarrow> bool" where
  "syn_layout syn \<longleftrightarrow>
     synCurrent syn = InternalBuffer 0 \<and>
     openChannels syn = InternalBuffer 1 \<and>
     ntConcentration syn = InternalBuffer 2 \<and>
     alphaRate syn = InternalBuffer 3 \<and>
     betaRate syn = InternalBuffer 4 \<and>
     eRev syn = InternalBuffer 5 \<and>
     gMax syn = InternalBuffer 6 \<and>
     vP syn = InternalBuffer 7 \<and>
     kP syn = InternalBuffer 8 \<and>
     tMax syn = InternalBuffer 9 \<and>
     (case vPre syn of InternalBuffer i \<Rightarrow> i = 10 | External a \<Rightarrow> True) \<and>
     (case vPost syn of InternalBuffer i \<Rightarrow> i = 11 | External a \<Rightarrow> True) \<and>
     (case iSynPost syn of None \<Rightarrow> True
        | Some (InternalBuffer i) \<Rightarrow> False
        | Some (External a) \<Rightarrow> True)"

text \<open>
  Slots 10 and 11 of the internal buffer are zeroed by \<^verbatim>\<open>calloc\<close> and no pointer
  other than \<open>vPre\<close> and \<open>vPost\<close> reaches them; the code reads through these two
  pointers only.
\<close>

definition syn_wf :: "AmpaGabaaModel \<Rightarrow> bool" where
  "syn_wf model \<longleftrightarrow>
     syn_layout (synapse model) \<and>
     length (syn_internalBuffer model) = INTERNAL_VARS \<and>
     syn_internalBuffer model ! 10 = 0 \<and>
     syn_internalBuffer model ! 11 = 0 \<and>
     length (syn_stateVector model) = SYN_SYS_DIM \<and>
     rk_n (syn_integrator model) = SYN_SYS_DIM \<and>
     derivFunc (syn_integrator model) = AmpaGabaaDerivatives"

text \<open>
  Specification 4.2: dv/dt = 0.04 v v + 5 v + 140 - u + I and du/dt = a (b v - u),
  where I is the sum of the external and the synaptic current.
\<close>

definition izhikevich_ode :: "cfloat \<Rightarrow> cfloat \<Rightarrow> cfloat \<Rightarrow> cfloat list \<Rightarrow> cfloat list" where
  "izhikevich_ode a b I y =
     (let v = y ! 0; u = y ! 1
      in [0.04 * v\<^sup>2 + 5 * v + 140 - u + I, a * (b * v - u)])"

text \<open>
  Specification 4.3: the ionic currents from the gates, the fixed conductances and the
  reversal potentials; dV/dt = (sum of the ionic currents + I_ext + I_syn) / C; for each
  gate X, dX/dt = alpha(V) (1 - X) - beta(V) X.
\<close>

definition sodium_current :: "HodgkinHuxleyNeuron \<Rightarrow> cfloat list \<Rightarrow> cfloat" where
  "sodium_current nrn y = gNa nrn * (y ! 1) ^ 3 * y ! 2 * (eNa nrn - y ! 0)"

definition potassium_current :: "HodgkinHuxleyNeuron \<Rightarrow> cfloat list \<Rightarrow> cfloat" where
  "potassium_current nrn y = gK nrn * (y ! 3) ^ 4 * (eK nrn - y ! 0)"

definition leak_current :: "HodgkinHuxleyNeuron \<Rightarrow> cfloat list \<Rightarrow> cfloat" where
  "leak_current nrn y = gL nrn * (eL nrn - y ! 0)"

definition hodgkin_huxley_ode :: "HodgkinHuxleyNeuron \<Rightarrow> cfloat list \<Rightarrow> cfloat list" where
  "hodgkin_huxley_ode nrn y =
     (let V = y ! 0; m = y ! 1; h = y ! 2; n = y ! 3
      in [(sodium_current nrn y + potassium_current nrn y + leak_current nrn y
             + iExt nrn + iSyn nrn) / par_C nrn,
          AlphaM V * (1 - m) - BetaM V * m,
          AlphaH V * (1 - h) - BetaH V * h,
          AlphaN V * (1 - n) - BetaN V * n])"

text \<open>
  Specification 4.4: T(v_pre) = T_max / (1 + exp (- (v_pre - V_p) / K_p)) and
  dr/dt = alpha T (1 - r) - beta r.
\<close>

definition release_sigmoid :: "cfloat \<Rightarrow> cfloat \<Rightarrow> cfloat \<Rightarrow> cfloat \<Rightarrow> cfloat" where
  "release_sigmoid t_max v_p k_p v_pre = t_max / (1 + exp (- (v_pre - v_p) / k_p))"

definition synapse_ode :: "cfloat \<Rightarrow> cfloat \<Rightarrow> cfloat \<Rightarrow> cfloat list \<Rightarrow> cfloat list" where
  "synapse_ode alpha beta T y = [alpha * T * (1 - y ! 0) - beta * y ! 0]"

text \<open>The neuron after a derivative evaluation at the state \<open>s\<close>: the three cached currents.\<close>

definition cached :: "HodgkinHuxleyNeuron \<Rightarrow> cfloat list \<Rightarrow> HodgkinHuxleyNeuron" where
  "cached nrn s = nrn\<lparr>iL := leak_current nrn s, iK := potassium_current nrn s,
                        iNa := sodium_current nrn s\<rparr>"

text \<open>
  The value the synapse code takes for a voltage \<open>x\<close> read through a pointer
  (\<^verbatim>\<open>*(p) ? *(p) : DEFAULT\<close>), and with it the transmitter concentration of a step.
\<close>

definition effective_voltage :: "cfloat \<Rightarrow> cfloat \<Rightarrow> cfloat" where
  "effective_voltage x dflt = (if x \<noteq> 0 then x else dflt)"

definition syn_T :: "AmpaGabaaModel \<Rightarrow> heap \<Rightarrow> cfloat" where
  "syn_T model ext =
     (let mem = memory_of model ext; syn = synapse model
      in release_sigmoid (load mem (tMax syn)) (load mem (vP syn)) (load mem (kP syn))
           (effective_voltage (load mem (vPre syn)) DEFAULT_V_PRE))"

section \<open>Example runs\<close>

text \<open>
  A regular-spiking neuron with the reference step 0.01, every allocation succeeding;
  then the same neuron with a very large external current.
\<close>

definition iz_fresh :: "IzhikevichModel option" where
  "iz_fresh = IzhikevichInitModel (\<lambda>k. True) REGULAR_SPIKING 0.01"

definition iz_driven :: "IzhikevichModel option" where
  "iz_driven = snd (IzhikevichSetExternalCurrent iz_fresh 100000)"

text \<open>
  The same neuron over the values with infinities and NaN: \<open>iz_resting\<close> as constructed,
  \<open>iz_overdriven\<close> with the external current set to 1000000000000, and \<open>iz_overflowed\<close>
  after one advance of \<open>iz_overdriven\<close>.
\<close>

definition iz_resting :: "IzhikevichModel_ieee option" where
  "iz_resting = IzhikevichInitModel_ieee (\<lambda>k. True) REGULAR_SPIKING (Finite 0.01)"



text \<open>A Hodgkin-Huxley neuron with the reference step.\<close>

definition hh_fresh :: "HodgkinHuxleyModel option" where
  "hh_fresh = HodgkinHuxleyInitModel (\<lambda>k. True) 0.01"

text \<open>
  The same neuron with the external current set to 60000000. \<open>driven_neuron\<close> is its
  neuron struct, \<open>J_driven\<close> the external current divided by the capacitance, and
  \<open>driven_start\<close> its state vector before the first advance.
\<close>

definition hh_driven :: "HodgkinHuxleyModel option" where
  "hh_driven = snd (HodgkinHuxleySetExternalCurent hh_fresh 60000000)"

definition driven_neuron :: HodgkinHuxleyNeuron where
  "driven_neuron =
     \<lparr>par_C = 9 * PI, gL = 2.7 * PI, eL = 10.6, eK = -12, gK = 324 * PI,
      eNa = 115, gNa = 1080 * PI, iNa = 0, iK = 0, iL = 0, iSyn = 0, iExt = 60000000\<rparr>"

definition J_driven :: cfloat where
  "J_driven = 60000000 / (9 * PI)"

definition driven_start :: "cfloat list" where
  "driven_start = [- 65, GATE_REST_M, GATE_REST_H, GATE_REST_N]"

text \<open>
  An AMPA synapse for a Hodgkin-Huxley target, given the weight 1 and connected to three
  floats of the caller: the pre-synaptic voltage at address 0, the post-synaptic voltage
  at address 1 and the post-synaptic current accumulator at address 2. In
  \<open>neuron_floats\<close> the pre-synaptic voltage is 62, the post-synaptic voltage is 0 and the
  accumulator holds 5.
\<close>

definition syn_fresh :: "AmpaGabaaModel option" where
  "syn_fresh = AmpaGabaaInitModel (\<lambda>k. True) AMPA HODGKIN_HUXLEY_MODEL 0.01"

definition syn_weighted :: "AmpaGabaaModel option" where
  "syn_weighted = fst (snd (AmpaGabaaSetMaximumConductancy syn_fresh (\<lambda>a. 0) 1))"

definition syn_connected :: "AmpaGabaaModel option" where
  "syn_connected = snd (AmpaGabaaConnectSynapse syn_weighted (Some 0) (Some 1) (Some 2))"

definition neuron_floats :: heap where
  "neuron_floats = (\<lambda>a. 0)(0 := 62, 2 := 5)"

text \<open>The same floats with the post-synaptic voltage 30.\<close>

definition neuron_floats_live :: heap where
  "neuron_floats_live = (\<lambda>a. 0)(0 := 62, 1 := 30, 2 := 5)"

section \<open>Properties of the integrator\<close>

lemma length_vadd [simp]: "length (vadd xs ys) = min (length xs) (length ys)"
  by (simp add: vadd_def)

lemma length_vscale [simp]: "length (vscale c xs) = length xs"
  by (simp add: vscale_def)

lemma nth_vadd [simp]:
  "i < length xs \<Longrightarrow> i < length ys \<Longrightarrow> vadd xs ys ! i = xs ! i + ys ! i"
  by (simp add: vadd_def)

lemma nth_vscale [simp]: "i < length xs \<Longrightarrow> vscale c xs ! i = c * xs ! i"
  by (simp add: vscale_def)

text \<open>The three loops that fill \<^verbatim>\<open>temp_state\<close>, and the loop that updates the state.\<close>

lemma axpy_loop:
  "length y = n \<Longrightarrow> length k = n \<Longrightarrow>
   map (\<lambda>i. y ! i + c * k ! i) [0..<n] = vadd y (vscale c k)"
  by (rule nth_equalityI) simp_all

lemma final_loop:
  assumes "length y = n" "length k1 = n" "length k2 = n" "length k3 = n" "length k4 = n"
  shows "map (\<lambda>i. y ! i + (k1 ! i + 2.0 * (k2 ! i + k3 ! i) + k4 ! i) * (dt / 6.0)) [0..<n]
           @ drop n y
         = vadd y (vscale (dt / 6) (vadd k1 (vadd (vscale 2 k2) (vadd (vscale 2 k3) k4))))"
  using assms by (intro nth_equalityI) (simp_all add: algebra_simps)

lemma stage_lengths:
  assumes "length y = n" "\<forall>s. length s = n \<longrightarrow> length (f s) = n"
  shows "length (stage2 f h y) = n" "length (stage3 f h y) = n" "length (stage4 f h y) = n"
  using assms by (simp_all add: stage2_def stage3_def stage4_def)

text \<open>
  The step on a callback whose derivative values are those of a function \<open>f\<close> of the
  state and which leaves the object behind \<^verbatim>\<open>params\<close> as the function \<open>c\<close> of the
  state says, on a set \<open>Q\<close> of such objects that the callback does not leave: the new
  state is that of the specification, and the object is as the fourth call left it.
\<close>

lemma RK4Calculate_stages:
  assumes n: "rk_n integrator = n" and len: "length y = n"
    and p: "p \<in> Q"
    and g: "\<forall>s q. q \<in> Q \<longrightarrow> length s = n \<longrightarrow>
              derivFunc integrator s q = (f s, c s) \<and> c s \<in> Q \<and> length (f s) = n"
  shows "RK4Calculate integrator p y
           = (rk4_step f (rk_dt integrator) y, c (stage4 f (rk_dt integrator) y))"
proof -
  let ?dt = "rk_dt integrator" and ?g = "derivFunc integrator"
  have fl: "\<forall>s. length s = n \<longrightarrow> length (f s) = n" using g p by blast
  have c1: "?g y p = (f y, c y)" and p1: "c y \<in> Q" using g p len by blast+
  have t1: "map (\<lambda>i. y ! i + ?dt * 0.5 * f y ! i) [0..<n] = stage2 f ?dt y"
    using axpy_loop[OF len, of "f y" "?dt * 0.5"] fl len by (simp add: stage2_def)
  have s2: "length (stage2 f ?dt y) = n" using stage_lengths(1)[OF len fl] .
  have c2: "?g (stage2 f ?dt y) (c y) = (f (stage2 f ?dt y), c (stage2 f ?dt y))"
    and p2: "c (stage2 f ?dt y) \<in> Q" using g p1 s2 by blast+
  have t2: "map (\<lambda>i. y ! i + ?dt * 0.5 * f (stage2 f ?dt y) ! i) [0..<n] = stage3 f ?dt y"
    using axpy_loop[OF len, of "f (stage2 f ?dt y)" "?dt * 0.5"] fl s2 by (simp add: stage3_def)
  have s3: "length (stage3 f ?dt y) = n" using stage_lengths(2)[OF len fl] .
  have c3: "?g (stage3 f ?dt y) (c (stage2 f ?dt y)) = (f (stage3 f ?dt y), c (stage3 f ?dt y))"
    and p3: "c (stage3 f ?dt y) \<in> Q" using g p2 s3 by blast+
  have t3: "map (\<lambda>i. y ! i + ?dt * f (stage3 f ?dt y) ! i) [0..<n] = stage4 f ?dt y"
    using axpy_loop[OF len, of "f (stage3 f ?dt y)" ?dt] fl s3 by (simp add: stage4_def)
  have s4: "length (stage4 f ?dt y) = n" using stage_lengths(3)[OF len fl] .
  have c4: "?g (stage4 f ?dt y) (c (stage3 f ?dt y)) = (f (stage4 f ?dt y), c (stage4 f ?dt y))"
    using g p3 s4 by blast
  have upd: "map (\<lambda>i. y ! i + (f y ! i + 2.0 * (f (stage2 f ?dt y) ! i + f (stage3 f ?dt y) ! i)
                 + f (stage4 f ?dt y) ! i) * (?dt / 6.0)) [0..<n] @ drop n y
      = rk4_step f ?dt y"
    unfolding rk4_step_def Let_def
    by (rule final_loop) (use fl len s2 s3 s4 in simp_all)
  show ?thesis
    by (simp only: RK4Calculate_def Let_def n c1 prod.case t1 c2 t2 c3 t3 c4 upd)
qed

text \<open>
  Claim C3. For every dimension \<open>n\<close>, step size, derivative function \<open>f\<close> and state
  vector \<open>y\<close> of length \<open>n\<close>, the step of the integrator replaces \<open>y\<close> by
  \<open>y + dt/6 (k1 + 2 k2 + 2 k3 + k4)\<close> with \<open>k1 = f y\<close>, \<open>k2 = f (y + dt/2 k1)\<close>,
  \<open>k3 = f (y + dt/2 k2)\<close> and \<open>k4 = f (y + dt k3)\<close>. The callback may use and change the
  object behind \<^verbatim>\<open>params\<close> as long as its derivative values stay those of \<open>f\<close>.
\<close>

theorem RK4Calculate_step:
  assumes n: "rk_n integrator = n" and len: "length y = n"
    and p: "p \<in> Q"
    and g: "\<forall>s q. q \<in> Q \<longrightarrow> length s = n \<longrightarrow>
              fst (derivFunc integrator s q) = f s \<and> snd (derivFunc integrator s q) \<in> Q \<and>
              length (f s) = n"
  shows "fst (RK4Calculate integrator p y) = rk4_step f (rk_dt integrator) y"
proof -
  let ?dt = "rk_dt integrator" and ?g = "derivFunc integrator"
  have fl: "\<forall>s. length s = n \<longrightarrow> length (f s) = n" using g p by blast
  obtain p1 where c1: "?g y p = (f y, p1)" and p1: "p1 \<in> Q"
    using g p len by (metis prod.collapse)
  have t1: "map (\<lambda>i. y ! i + ?dt * 0.5 * f y ! i) [0..<n] = stage2 f ?dt y"
    using axpy_loop[OF len, of "f y" "?dt * 0.5"] fl len by (simp add: stage2_def)
  have s2: "length (stage2 f ?dt y) = n" using stage_lengths(1)[OF len fl] .
  obtain p2 where c2: "?g (stage2 f ?dt y) p1 = (f (stage2 f ?dt y), p2)" and p2: "p2 \<in> Q"
    using g p1 s2 by (metis prod.collapse)
  have t2: "map (\<lambda>i. y ! i + ?dt * 0.5 * f (stage2 f ?dt y) ! i) [0..<n] = stage3 f ?dt y"
    using axpy_loop[OF len, of "f (stage2 f ?dt y)" "?dt * 0.5"] fl s2 by (simp add: stage3_def)
  have s3: "length (stage3 f ?dt y) = n" using stage_lengths(2)[OF len fl] .
  obtain p3 where c3: "?g (stage3 f ?dt y) p2 = (f (stage3 f ?dt y), p3)" and p3: "p3 \<in> Q"
    using g p2 s3 by (metis prod.collapse)
  have t3: "map (\<lambda>i. y ! i + ?dt * f (stage3 f ?dt y) ! i) [0..<n] = stage4 f ?dt y"
    using axpy_loop[OF len, of "f (stage3 f ?dt y)" ?dt] fl s3 by (simp add: stage4_def)
  have s4: "length (stage4 f ?dt y) = n" using stage_lengths(3)[OF len fl] .
  obtain p4 where c4: "?g (stage4 f ?dt y) p3 = (f (stage4 f ?dt y), p4)"
    using g p3 s4 by (metis prod.collapse)
  have upd: "map (\<lambda>i. y ! i + (f y ! i + 2.0 * (f (stage2 f ?dt y) ! i + f (stage3 f ?dt y) ! i)
                 + f (stage4 f ?dt y) ! i) * (?dt / 6.0)) [0..<n] @ drop n y
      = rk4_step f ?dt y"
    unfolding rk4_step_def Let_def
    by (rule final_loop) (use fl len s2 s3 s4 in simp_all)
  show ?thesis
    by (simp only: RK4Calculate_def Let_def n c1 prod.case t1 c2 t2 c3 t3 c4 upd fst_conv)
qed

theorem RK4Calculate_step_witness:
  "rk_n \<lparr>rk_n = 2, rk_dt = 1/10, derivFunc = (\<lambda>s (p :: nat). ([s ! 1, - s ! 0], Suc p))\<rparr> = 2 \<and>
   length [1, 0 :: real] = 2 \<and>
   fst (RK4Calculate \<lparr>rk_n = 2, rk_dt = 1/10, derivFunc = (\<lambda>s p. ([s ! 1, - s ! 0], Suc p))\<rparr>
          (0 :: nat) [1, 0])
     = [238801 / 240000, - (599 / 6000)]"
  using RK4Calculate_step
    [of "\<lparr>rk_n = 2, rk_dt = 1/10, derivFunc = (\<lambda>s (p :: nat). ([s ! 1, - s ! 0], Suc p))\<rparr>"
        2 "[1, 0]" 0 UNIV "\<lambda>s. [s ! 1, - s ! 0]"]
  by (simp add: rk4_step_def stage2_def stage3_def stage4_def vadd_def vscale_def)

lemma length_rk4_step:
  "length y = n \<Longrightarrow> \<forall>s. length s = n \<longrightarrow> length (f s) = n \<Longrightarrow>
   length (rk4_step f h y) = n"
  by (simp add: rk4_step_def Let_def stage_lengths)

lemma nth_stage2:
  assumes "length y = n" "\<forall>s. length s = n \<longrightarrow> length (f s) = n" "i < n"
  shows "stage2 f h y ! i = y ! i + h / 2 * f y ! i"
  using assms by (simp add: stage2_def)

lemma nth_stage3:
  assumes "length y = n" "\<forall>s. length s = n \<longrightarrow> length (f s) = n" "i < n"
  shows "stage3 f h y ! i = y ! i + h / 2 * f (stage2 f h y) ! i"
  using assms stage_lengths(1) [OF assms(1,2), of h] by (simp add: stage3_def)

lemma nth_stage4:
  assumes "length y = n" "\<forall>s. length s = n \<longrightarrow> length (f s) = n" "i < n"
  shows "stage4 f h y ! i = y ! i + h * f (stage3 f h y) ! i"
  using assms stage_lengths(2) [OF assms(1,2), of h] by (simp add: stage4_def)

lemma nth_rk4_step:
  assumes "length y = n" "\<forall>s. length s = n \<longrightarrow> length (f s) = n" "i < n"
  shows "rk4_step f h y ! i
           = y ! i + h / 6 * (f y ! i + (2 * f (stage2 f h y) ! i
                                + (2 * f (stage3 f h y) ! i + f (stage4 f h y) ! i)))"
  using assms stage_lengths [OF assms(1,2), of h] by (simp add: rk4_step_def Let_def)

lemmas rk4_eval = rk4_step_def stage2_def stage3_def stage4_def vadd_def vscale_def Let_def

section \<open>Properties of the Izhikevich neuron\<close>

lemma IzhikevichDerivatives_ode:
  "IzhikevichDerivatives s nrn
     = (izhikevich_ode (par_a nrn) (par_b nrn) (Iext nrn + Isyn nrn) s, nrn)"
  by (simp add: IzhikevichDerivatives_def izhikevich_ode_def Let_def power2_eq_square)

lemma length_izhikevich_ode [simp]: "length (izhikevich_ode a b I s) = 2"
  by (simp add: izhikevich_ode_def Let_def)

lemma Izhikevich_RK4Calculate:
  assumes "iz_wf model"
  shows "RK4Calculate (iz_integrator model) (iz_neuron model) (iz_stateVector model)
           = (rk4_step (izhikevich_ode (par_a (iz_neuron model)) (par_b (iz_neuron model))
                          (Iext (iz_neuron model) + Isyn (iz_neuron model)))
                (rk_dt (iz_integrator model)) (iz_stateVector model),
              iz_neuron model)"
  using assms
  by (intro RK4Calculate_stages [where n = 2 and Q = "{iz_neuron model}"])
     (simp_all add: iz_wf_def IZ_SYS_DIM_def IzhikevichDerivatives_ode)

text \<open>Construction establishes the invariant, and the operations keep it.\<close>

lemma IzhikevichInitModel_wf:
  "IzhikevichInitModel calloc_ok type dt = Some model \<Longrightarrow> iz_wf model"
  by (auto simp: IzhikevichInitModel_def RK4Init_def iz_wf_def IZ_SYS_DIM_def Let_def
           split: if_splits)

lemma IzhikevichInitModel_succeeds:
  "calloc_ok 0 \<Longrightarrow> calloc_ok 1 \<Longrightarrow> calloc_ok 2 \<Longrightarrow> calloc_ok 3 \<Longrightarrow>
   \<exists>model. IzhikevichInitModel calloc_ok type dt = Some model"
  by (simp add: IzhikevichInitModel_def RK4Init_def Let_def)

lemma IzhikevichSetExternalCurrent_wf:
  "iz_wf model \<Longrightarrow> IzhikevichSetExternalCurrent (Some model) x = (ok, Some model') \<Longrightarrow>
   iz_wf model'"
  by (auto simp: iz_wf_def)

lemma IzhikevichUpdateModel_wf:
  assumes "iz_wf model" "IzhikevichUpdateModel (Some model) = (x, Some model')"
  shows "iz_wf model'"
proof -
  have "length (fst (RK4Calculate (iz_integrator model) (iz_neuron model) (iz_stateVector model)))
          = 2"
    using assms(1) unfolding Izhikevich_RK4Calculate [OF assms(1)] fst_conv
    by (intro length_rk4_step) (simp_all add: iz_wf_def IZ_SYS_DIM_def)
  then show ?thesis
    using assms by (auto simp: iz_wf_def IZ_SYS_DIM_def Let_def split: prod.splits if_splits)
qed

lemma iz_fresh_eq:
  "iz_fresh =
     Some \<lparr>iz_integrator = \<lparr>rk_n = 2, rk_dt = 0.01, derivFunc = IzhikevichDerivatives\<rparr>,
           iz_stateVector = [-75, -15],
           iz_neuron = \<lparr>par_a = 0.02, par_b = 0.2, par_c = -65, par_d = 8,
                        Iext = 0, Isyn = 0\<rparr>\<rparr>"
  by (simp add: iz_fresh_def IzhikevichInitModel_def RK4Init_def IZ_SYS_DIM_def Let_def)

text \<open>
  Claim C2. For every Izhikevich model, an advance performs one full integration step of
  the equations of the model and then, if the integrated \<open>v\<close> is at least 30, sets \<open>v\<close>
  to \<open>c\<close>, adds \<open>d\<close> to \<open>u\<close> and returns 30; otherwise it keeps \<open>v\<close> and \<open>u\<close> as
  integrated and returns the integrated \<open>v\<close>.
\<close>

theorem IzhikevichUpdateModel_reset_rule:
  assumes "iz_wf model"
  defines "nrn \<equiv> iz_neuron model"
  defines "y \<equiv> rk4_step (izhikevich_ode (par_a nrn) (par_b nrn) (Iext nrn + Isyn nrn))
                  (rk_dt (iz_integrator model)) (iz_stateVector model)"
  shows "IzhikevichUpdateModel (Some model)
           = (if y ! 0 \<ge> 30
              then (30, Some (model\<lparr>iz_stateVector := [par_c nrn, y ! 1 + par_d nrn]\<rparr>))
              else (y ! 0, Some (model\<lparr>iz_stateVector := y\<rparr>)))"
proof -
  have "length y = 2"
    unfolding y_def using assms(1)
    by (intro length_rk4_step) (simp_all add: iz_wf_def IZ_SYS_DIM_def)
  then obtain v u where y: "y = [v, u]"
    by (cases y; cases "tl y") auto
  show ?thesis
    using Izhikevich_RK4Calculate [OF assms(1)] y
    by (simp add: nrn_def [symmetric] y_def [symmetric] IZHIKEVICH_SPIKE_PEAK_def)
qed

theorem IzhikevichUpdateModel_reset_rule_witness:
  "iz_wf (the iz_driven) \<and>
   IzhikevichUpdateModel iz_driven
     = (30, Some ((the iz_driven)
              \<lparr>iz_stateVector := [- 65, - (55828832510070347507333 / 8000000000000000000000)]\<rparr>))"
  using IzhikevichUpdateModel_reset_rule [of "the iz_driven"]
  by (simp add: iz_driven_def iz_fresh_eq iz_wf_def IZ_SYS_DIM_def rk4_eval izhikevich_ode_def
        power2_eq_square
        del: IzhikevichUpdateModel.simps)

section \<open>Properties of the Izhikevich neuron over values with infinities and NaN\<close>

lemmas ieee_eval =
  float_add_def float_sub_def float_mul_def double_add_def double_sub_def double_mul_def
  double_div_def to_float_def to_double_def FLT_OVERFLOW_def DBL_OVERFLOW_def
  infinity_of_sign_def

lemma upt_two: "[0..<2] = [0, Suc 0]"
  by (simp add: numeral_2_eq_2)

text \<open>A step of the integrator on a state of two values, from its four evaluations.\<close>

lemma RK4Calculate_ieee_two:
  assumes "ieee_n R = 2"
    and "h = to_float (double_mul (ieee_dt R) (Finite 0.5))"
    and "ieee_derivFunc R [y_v, y_u] p = ([a_v, a_u], p)"
    and "ieee_derivFunc R [float_add y_v (float_mul h a_v), float_add y_u (float_mul h a_u)] p
           = ([b_v, b_u], p)"
    and "ieee_derivFunc R [float_add y_v (float_mul h b_v), float_add y_u (float_mul h b_u)] p
           = ([c_v, c_u], p)"
    and "ieee_derivFunc R [float_add y_v (float_mul (ieee_dt R) c_v),
                           float_add y_u (float_mul (ieee_dt R) c_u)] p
           = ([d_v, d_u], p)"
    and "s = to_float (double_div (ieee_dt R) (Finite 6.0))"
    and "r_v = to_float (double_add y_v
                 (double_mul (double_add (double_add a_v
                    (double_mul (Finite 2.0) (float_add b_v c_v))) d_v) s))"
    and "r_u = to_float (double_add y_u
                 (double_mul (double_add (double_add a_u
                    (double_mul (Finite 2.0) (float_add b_u c_u))) d_u) s))"
  shows "RK4Calculate_ieee R p [y_v, y_u] = ([r_v, r_u], p)"
  using assms(3-6) unfolding assms(2,7,8,9)
  by (simp add: RK4Calculate_ieee_def Let_def assms(1) upt_two)

lemma iz_resting_eq:
  "iz_resting =
     Some \<lparr>ieee_integrator = \<lparr>ieee_n = 2, ieee_dt = Finite 0.01,
                               ieee_derivFunc = IzhikevichDerivatives_ieee\<rparr>,
           ieee_stateVector = [Finite (- 75), Finite (- 15)],
           ieee_neuron = \<lparr>ieee_a = Finite 0.02, ieee_b = Finite 0.2, ieee_c = Finite (- 65),
              ieee_d = Finite 8, ieee_Iext = Finite 0, ieee_Isyn = Finite 0\<rparr>\<rparr>"
  by (simp add: iz_resting_def IzhikevichInitModel_ieee_def RK4Init_ieee_def IZ_SYS_DIM_def
        Let_def ieee_eval)


text \<open>
  The step of the neuron at rest: the four evaluations stay finite, and the integrated
  voltage is near -74.95.
\<close>

lemma resting_step:
  "RK4Calculate_ieee (ieee_integrator (the iz_resting)) (ieee_neuron (the iz_resting))
     (ieee_stateVector (the iz_resting))
   = ([Finite (- (28780895555344627800017196951968393203999
                   / 384000000000000000000000000000000000000)),
       Finite (- (359999976081317322601999 / 24000000000000000000000))],
      ieee_neuron (the iz_resting))"
  unfolding iz_resting_eq option.sel IzhikevichModel_ieee.select_convs
  by (rule RK4Calculate_ieee_two [where h = "Finite 0.005" and s = "Finite (1 / 600)"
        and a_v = "Finite 5" and a_u = "Finite 0"
        and b_v = "Finite (199001 / 40000)" and b_u = "Finite (1 / 10000)"
        and c_v = "Finite (7960238601398001 / 1600000000000000)"
        and c_u = "Finite (198981 / 2000000000)"
        and d_v = "Finite (3168221774253799182803048031606796001
                           / 640000000000000000000000000000000000)"
        and d_u = "Finite (7959442677398001 / 40000000000000000000)"])
     (simp_all add: IzhikevichDerivatives_ieee_def Let_def ieee_eval)

text \<open>At rest the two embeddings compute the same step.\<close>

lemma embeddings_agree_at_rest:
  "fst (RK4Calculate_ieee (ieee_integrator (the iz_resting)) (ieee_neuron (the iz_resting))
          (ieee_stateVector (the iz_resting)))
     = map Finite (fst (RK4Calculate (iz_integrator (the iz_fresh)) (iz_neuron (the iz_fresh))
                          (iz_stateVector (the iz_fresh))))"
proof -
  have wf: "iz_wf (the iz_fresh)"
    by (simp add: iz_fresh_eq iz_wf_def IZ_SYS_DIM_def)
  show ?thesis
    unfolding resting_step Izhikevich_RK4Calculate [OF wf]
    by (simp add: iz_fresh_eq rk4_eval izhikevich_ode_def power2_eq_square)
qed







section \<open>Properties of the Hodgkin-Huxley neuron\<close>

text \<open>
  Claim C4. The rate function \<open>alpha_m\<close> at the voltage 25 is 1, and \<open>alpha_n\<close> at the
  voltage 10 is 0.1: the guards return the limits, and the quotients, whose denominators
  vanish there, are not taken.
\<close>

theorem rate_functions_at_singularities:
  "AlphaM 25.0 = 1.0 \<and> AlphaN 10.0 = 0.1"
  by (simp add: AlphaM_def AlphaN_def)

text \<open>The denominators of the two quotients at these voltages.\<close>

lemma quotient_denominators_vanish:
  "10 * (exp ((25.0 - 25.0) / 10.0) - 1) = (0 :: real)"
  "100.0 * (exp ((10.0 - 10.0) / 10.0) - 1.0) = (0 :: real)"
  by simp_all

lemma length_hodgkin_huxley_ode [simp]: "length (hodgkin_huxley_ode nrn s) = 4"
  by (simp add: hodgkin_huxley_ode_def Let_def)

lemma hodgkin_huxley_ode_cache [simp]:
  "hodgkin_huxley_ode (nrn\<lparr>iL := x, iK := y, iNa := z\<rparr>) = hodgkin_huxley_ode nrn"
  by (rule ext)
     (simp add: hodgkin_huxley_ode_def sodium_current_def potassium_current_def
        leak_current_def)

lemma HodgkinHuxleyDerivatives_ode:
  "HodgkinHuxleyDerivatives s (nrn\<lparr>iL := x, iK := y, iNa := z\<rparr>)
     = (hodgkin_huxley_ode nrn s, cached nrn s)"
  by (simp add: HodgkinHuxleyDerivatives_def hodgkin_huxley_ode_def Let_def cached_def
        sodium_current_def potassium_current_def leak_current_def
        power3_eq_cube power4_eq_xxxx algebra_simps)

lemma HodgkinHuxley_RK4Calculate:
  assumes "hh_wf model"
  defines "nrn \<equiv> hh_neuron model" and "h \<equiv> rk_dt (hh_integrator model)"
  shows "RK4Calculate (hh_integrator model) nrn (hh_stateVector model)
           = (rk4_step (hodgkin_huxley_ode nrn) h (hh_stateVector model),
              cached nrn (stage4 (hodgkin_huxley_ode nrn) h (hh_stateVector model)))"
proof -
  let ?Q = "{q. \<exists>x y z. q = nrn\<lparr>iL := x, iK := y, iNa := z\<rparr>}"
  have "nrn = nrn\<lparr>iL := iL nrn, iK := iK nrn, iNa := iNa nrn\<rparr>" by simp
  then have p: "nrn \<in> ?Q" by blast
  have g: "\<forall>s q. q \<in> ?Q \<longrightarrow> length s = 4 \<longrightarrow>
             derivFunc (hh_integrator model) s q = (hodgkin_huxley_ode nrn s, cached nrn s) \<and>
             cached nrn s \<in> ?Q \<and> length (hodgkin_huxley_ode nrn s) = 4"
    using assms(1) by (auto simp: hh_wf_def HodgkinHuxleyDerivatives_ode) (auto simp: cached_def)
  show ?thesis
    unfolding h_def
    by (rule RK4Calculate_stages [where n = 4 and Q = ?Q, OF _ _ p g])
       (use assms(1) in \<open>simp_all add: hh_wf_def HH_SYS_DIM_def\<close>)
qed

lemma hh_fresh_eq:
  "hh_fresh =
     Some \<lparr>hh_integrator = \<lparr>rk_n = 4, rk_dt = 0.01, derivFunc = HodgkinHuxleyDerivatives\<rparr>,
           hh_stateVector = [-65, GATE_REST_M, GATE_REST_H, GATE_REST_N],
           hh_neuron = \<lparr>par_C = 9 * PI, gL = 2.7 * PI, eL = 10.6, eK = -12, gK = 324 * PI,
                        eNa = 115, gNa = 1080 * PI, iNa = 0, iK = 0, iL = 0, iSyn = 0, iExt = 0\<rparr>\<rparr>"
  by (simp add: hh_fresh_def HodgkinHuxleyInitModel_def RK4Init_def HH_SYS_DIM_def Let_def HH_CONFIG_def)

lemma HodgkinHuxleyInitModel_wf:
  "HodgkinHuxleyInitModel calloc_ok dt = Some model \<Longrightarrow> hh_wf model"
  by (auto simp: HodgkinHuxleyInitModel_def RK4Init_def hh_wf_def HH_SYS_DIM_def Let_def
           split: if_splits)

lemma HodgkinHuxleyInitModel_succeeds:
  "calloc_ok 0 \<Longrightarrow> calloc_ok 1 \<Longrightarrow> calloc_ok 2 \<Longrightarrow> calloc_ok 3 \<Longrightarrow>
   \<exists>model. HodgkinHuxleyInitModel calloc_ok dt = Some model"
  by (simp add: HodgkinHuxleyInitModel_def RK4Init_def Let_def)

lemma HodgkinHuxleySetExternalCurent_wf:
  "hh_wf model \<Longrightarrow> HodgkinHuxleySetExternalCurent (Some model) x = (ok, Some model') \<Longrightarrow>
   hh_wf model'"
  by (auto simp: hh_wf_def)

lemma HodgkinHuxleyUpdateModel_wf:
  assumes "hh_wf model" "HodgkinHuxleyUpdateModel (Some model) = (x, Some model')"
  shows "hh_wf model'"
proof -
  have "length (rk4_step (hodgkin_huxley_ode (hh_neuron model)) (rk_dt (hh_integrator model))
                  (hh_stateVector model)) = 4"
    using assms(1) by (intro length_rk4_step) (simp_all add: hh_wf_def HH_SYS_DIM_def)
  then show ?thesis
    using assms HodgkinHuxley_RK4Calculate [OF assms(1)]
    by (auto simp: hh_wf_def HH_SYS_DIM_def)
qed

text \<open>
  Claim C6. After an advance of the Hodgkin-Huxley model the accessors of the sodium, the
  potassium and the leak current return the currents of the fourth derivative evaluation
  of the step, that is, the currents at the intermediate state \<open>y + dt k3\<close>, whatever
  the state after the step is.
\<close>

theorem HodgkinHuxley_currents_of_last_stage:
  assumes "hh_wf model"
  defines "nrn \<equiv> hh_neuron model"
  defines "y4 \<equiv> stage4 (hodgkin_huxley_ode nrn) (rk_dt (hh_integrator model)) (hh_stateVector model)"
  defines "model' \<equiv> snd (HodgkinHuxleyUpdateModel (Some model))"
  shows "HodgkinHuxleyGetINa model' = sodium_current nrn y4 \<and>
         HodgkinHuxleyGetIK model' = potassium_current nrn y4 \<and>
         HodgkinHuxleyGetILeak model' = leak_current nrn y4"
  using HodgkinHuxley_RK4Calculate [OF assms(1)]
  by (simp add: model'_def y4_def nrn_def cached_def)

section \<open>The gates of the Hodgkin-Huxley neuron\<close>

subsection \<open>Bounds on the rate functions\<close>

lemma exp_minus_le_inverse:
  fixes x :: real
  assumes "0 \<le> x"
  shows "exp (- x) \<le> 1 / (1 + x)"
proof -
  have "1 + x \<le> exp x" by (rule exp_ge_add_one_self)
  then have "1 / exp x \<le> 1 / (1 + x)"
    using assms by (intro divide_left_mono) (auto intro: mult_pos_pos add_pos_nonneg)
  then show ?thesis by (simp add: exp_minus inverse_eq_divide)
qed

lemma AlphaM_above:
  assumes "25 < v"
  shows "(v - 25) / 10 \<le> AlphaM v" and "AlphaM v \<le> (v - 25) / 10 + 1"
proof -
  define x where "x = (v - 25) / 10"
  have x: "0 < x" using assms by (simp add: x_def)
  have e1: "exp (- x) < 1" using x by simp
  have e2: "exp (- x) \<le> 1 / (1 + x)" using x by (intro exp_minus_le_inverse) simp
  have A: "AlphaM v = x / (1 - exp (- x))"
  proof -
    have eq: "(25 - v) / 10 = - x" and n: "25 - v = 10 * (- x)"
      by (simp_all add: x_def field_simps)
    have "AlphaM v = (25 - v) / (10 * (exp ((25 - v) / 10) - 1))"
      using assms by (simp add: AlphaM_def)
    also have "\<dots> = (25 - v) / (10 * (exp (- x) - 1))" by (simp only: eq)
    also have "\<dots> = (10 * (- x)) / (10 * (exp (- x) - 1))" by (simp only: n)
    also have "\<dots> = (- x) / (exp (- x) - 1)"
      by (rule mult_divide_mult_cancel_left) simp
    also have "\<dots> = x / (1 - exp (- x))"
      by (metis minus_diff_eq minus_divide_divide)
    finally show ?thesis .
  qed
  have d: "0 < 1 - exp (- x)" "1 - exp (- x) \<le> 1" using e1 by simp_all
  have "x \<le> x / (1 - exp (- x))"
    using x d by (simp add: field_simps)
  then show "(v - 25) / 10 \<le> AlphaM v" by (simp add: A x_def)
  have "x / (1 + x) \<le> 1 - exp (- x)"
    using e2 x by (simp add: field_simps)
  then have "x \<le> (1 - exp (- x)) * (1 + x)"
    using x by (simp add: field_simps)
  then have "x / (1 - exp (- x)) \<le> x + 1"
    using d by (simp add: field_simps)
  then show "AlphaM v \<le> (v - 25) / 10 + 1" by (simp add: A x_def)
qed

lemma AlphaM_below:
  assumes "v < 25"
  shows "0 < AlphaM v" and "AlphaM v \<le> 1"
proof -
  define x where "x = (25 - v) / 10"
  have x: "0 < x" using assms by (simp add: x_def)
  have e: "x \<le> exp x - 1" using exp_ge_add_one_self [of x] by linarith
  have A: "AlphaM v = x / (exp x - 1)"
    using assms by (simp add: AlphaM_def x_def)
  have d: "0 < exp x - 1" using x e by linarith
  show "0 < AlphaM v" unfolding A using x d by simp
  show "AlphaM v \<le> 1" unfolding A using e d by (simp add: field_simps)
qed

lemma BetaM_bounds:
  "0 < BetaM v" "0 \<le> v \<Longrightarrow> BetaM v \<le> 4" "v \<le> 0 \<Longrightarrow> 4 * (1 - v / 18) \<le> BetaM v"
proof -
  show "0 < BetaM v" by (simp add: BetaM_def)
  show "BetaM v \<le> 4" if "0 \<le> v" using that by (simp add: BetaM_def)
  show "4 * (1 - v / 18) \<le> BetaM v" if "v \<le> 0"
    using exp_ge_add_one_self [of "- v / 18"] by (simp add: BetaM_def)
qed

lemma AlphaH_pos: "0 < AlphaH v"
  by (simp add: AlphaH_def)

lemma BetaH_bounds: "0 < BetaH v" "BetaH v \<le> 1"
proof -
  have "0 < exp ((30 - v) / 10)" by simp
  then show "0 < BetaH v" "BetaH v \<le> 1"
    by (simp_all add: BetaH_def add_pos_pos field_simps)
qed

lemma AlphaN_below:
  assumes "v < 10"
  shows "0 < AlphaN v"
proof -
  define x where "x = (10 - v) / 10"
  have x: "0 < x" using assms by (simp add: x_def)
  have e: "x \<le> exp x - 1" using exp_ge_add_one_self [of x] by linarith
  have A: "AlphaN v = x / (10 * (exp x - 1))"
    using assms by (simp add: AlphaN_def x_def)
  have d: "0 < exp x - 1" using x e by linarith
  show "0 < AlphaN v" unfolding A using x d by simp
qed

lemma BetaN_pos: "0 < BetaN v"
  by (simp add: BetaN_def)

text \<open>The gates at rest.\<close>

lemma RP_eq: "RP = - 65"
  by (simp add: RP_def HH_CONFIG_def)

lemma GATE_REST_M_bounds: "0 \<le> GATE_REST_M" "GATE_REST_M \<le> 1 / 5"
proof -
  have a: "0 < AlphaM RP" "AlphaM RP \<le> 1" using AlphaM_below [of RP] by (simp_all add: RP_eq)
  have "4 * (1 - RP / 18) \<le> BetaM RP" by (rule BetaM_bounds(3)) (simp add: RP_eq)
  then have b: "4 \<le> BetaM RP" by (simp add: RP_eq)
  show "0 \<le> GATE_REST_M" using a b by (simp add: GATE_REST_M_def)
  show "GATE_REST_M \<le> 1 / 5" using a b by (simp add: GATE_REST_M_def field_simps)
qed

lemma GATE_REST_H_bounds: "3 / 4 \<le> GATE_REST_H" "GATE_REST_H \<le> 1"
proof -
  have "1 + 13 / 4 \<le> exp (13 / 4 :: real)" by (rule exp_ge_add_one_self)
  then have a: "119 / 400 \<le> AlphaH RP" by (simp add: AlphaH_def RP_eq)
  have "1 + 19 / 2 \<le> exp (19 / 2 :: real)" by (rule exp_ge_add_one_self)
  then have "1 / (exp (19 / 2 :: real) + 1) \<le> 1 / (23 / 2)"
    by (intro divide_left_mono) (auto intro: mult_pos_pos add_pos_pos)
  then have b: "BetaH RP \<le> 2 / 23" by (simp add: BetaH_def RP_eq)
  have b0: "0 < BetaH RP" by (rule BetaH_bounds)
  have s: "0 < AlphaH RP + BetaH RP" using a b0 by linarith
  have "3 * BetaH RP \<le> AlphaH RP" using a b by linarith
  then show "3 / 4 \<le> GATE_REST_H"
    unfolding GATE_REST_H_def using s by (simp add: field_simps)
  show "GATE_REST_H \<le> 1"
    unfolding GATE_REST_H_def using s b0 by (simp add: field_simps)
qed

lemma GATE_REST_N_bounds: "0 \<le> GATE_REST_N" "GATE_REST_N \<le> 1"
proof -
  have a: "0 < AlphaN RP" by (rule AlphaN_below) (simp add: RP_eq)
  have b: "0 < BetaN RP" by (rule BetaN_pos)
  show "0 \<le> GATE_REST_N" using a b by (simp add: GATE_REST_N_def)
  show "GATE_REST_N \<le> 1"
    unfolding GATE_REST_N_def using a b by (simp add: field_simps)
qed

lemma GATE_REST_M_steady: "AlphaM RP * (1 - GATE_REST_M) - BetaM RP * GATE_REST_M = 0"
proof -
  have "0 < AlphaM RP" using AlphaM_below [of RP] by (simp add: RP_eq)
  moreover have "0 < BetaM RP" by (rule BetaM_bounds)
  ultimately have "AlphaM RP + BetaM RP \<noteq> 0" by linarith
  then show ?thesis by (simp add: GATE_REST_M_def field_simps)
qed

lemma GATE_REST_H_steady: "AlphaH RP * (1 - GATE_REST_H) - BetaH RP * GATE_REST_H = 0"
proof -
  have "0 < AlphaH RP" by (rule AlphaH_pos)
  moreover have "0 < BetaH RP" by (rule BetaH_bounds)
  ultimately have "AlphaH RP + BetaH RP \<noteq> 0" by linarith
  then show ?thesis by (simp add: GATE_REST_H_def field_simps)
qed

lemma GATE_REST_N_steady: "AlphaN RP * (1 - GATE_REST_N) - BetaN RP * GATE_REST_N = 0"
proof -
  have "0 < AlphaN RP" by (rule AlphaN_below) (simp add: RP_eq)
  moreover have "0 < BetaN RP" by (rule BetaN_pos)
  ultimately have "AlphaN RP + BetaN RP \<noteq> 0" by linarith
  then show ?thesis by (simp add: GATE_REST_N_def field_simps)
qed

lemma AlphaN_above:
  assumes "10 < v"
  shows "0 < AlphaN v" and "AlphaN v \<le> (v - 10) / 100 + 1 / 10"
proof -
  define x where "x = (v - 10) / 10"
  have x: "0 < x" using assms by (simp add: x_def)
  have eq: "(10 - v) / 10 = - x" and n: "10 - v = 10 * (- x)"
    by (simp_all add: x_def field_simps)
  have "AlphaN v = (10 - v) / (100 * (exp ((10 - v) / 10) - 1))"
    using assms by (simp add: AlphaN_def)
  also have "\<dots> = (10 - v) / (100 * (exp (- x) - 1))" by (simp only: eq)
  also have "\<dots> = (10 * (- x)) / (10 * (10 * (exp (- x) - 1)))" by (simp only: n)
  also have "\<dots> = (- x) / (10 * (exp (- x) - 1))"
    by (rule mult_divide_mult_cancel_left) simp
  also have "\<dots> = (- x) / (- (10 * (1 - exp (- x))))" by simp
  also have "\<dots> = x / (10 * (1 - exp (- x)))" by (rule minus_divide_divide)
  finally have A: "AlphaN v = x / (10 * (1 - exp (- x)))" .
  have e1: "exp (- x) < 1" using x by simp
  have e2: "exp (- x) \<le> 1 / (1 + x)" using x by (intro exp_minus_le_inverse) simp
  have d: "0 < 1 - exp (- x)" using e1 by simp
  show "0 < AlphaN v" unfolding A using x d by simp
  have "x / (1 + x) \<le> 1 - exp (- x)" using e2 x by (simp add: field_simps)
  then have "x \<le> (1 - exp (- x)) * (1 + x)" using x by (simp add: field_simps)
  then have "x / (1 - exp (- x)) \<le> x + 1" using d by (simp add: field_simps)
  then have le: "(x / (1 - exp (- x))) / 10 \<le> (x + 1) / 10" by (rule divide_right_mono) simp
  have "AlphaN v = (x / (1 - exp (- x))) / 10" unfolding A by simp
  also note le
  also have "(x + 1) / 10 = (v - 10) / 100 + 1 / 10" by (simp add: x_def field_simps)
  finally show "AlphaN v \<le> (v - 10) / 100 + 1 / 10" .
qed

lemma rates_nonneg:
  "0 \<le> AlphaM v" "0 \<le> BetaM v" "0 \<le> AlphaH v" "0 \<le> BetaH v" "0 \<le> AlphaN v" "0 \<le> BetaN v"
proof -
  consider "v < 25" | "v = 25" | "25 < v" by linarith
  then show "0 \<le> AlphaM v"
  proof cases
    case 1
    then show ?thesis using AlphaM_below(1) [of v] by simp
  next
    case 2
    then show ?thesis by (simp add: AlphaM_def)
  next
    case 3
    then have "0 \<le> (v - 25) / 10" by simp
    then show ?thesis using AlphaM_above(1) [OF 3] by linarith
  qed
  consider "v < 10" | "v = 10" | "10 < v" by linarith
  then show "0 \<le> AlphaN v"
  proof cases
    case 1
    then show ?thesis using AlphaN_below [of v] by simp
  next
    case 2
    then show ?thesis by (simp add: AlphaN_def)
  next
    case 3
    then show ?thesis using AlphaN_above(1) [of v] by simp
  qed
  show "0 \<le> BetaM v" "0 \<le> AlphaH v" "0 \<le> BetaH v" "0 \<le> BetaN v"
    using BetaM_bounds(1) [of v] AlphaH_pos [of v] BetaH_bounds(1) [of v] BetaN_pos [of v]
    by simp_all
qed

lemma AlphaH_le: "0 \<le> v \<Longrightarrow> AlphaH v \<le> 7 / 100"
  by (simp add: AlphaH_def)

lemma BetaN_le: "0 \<le> v \<Longrightarrow> BetaN v \<le> 1 / 8"
  by (simp add: BetaN_def)

lemma fourth_power_le:
  fixes x :: real
  assumes "- c \<le> x" "x \<le> c"
  shows "0 \<le> x ^ 4" "x ^ 4 \<le> c ^ 4"
proof -
  show "0 \<le> x ^ 4" by simp
  have "\<bar>x\<bar> \<le> c" using assms by linarith
  then have "\<bar>x\<bar> ^ 4 \<le> c ^ 4" by (intro power_mono) simp_all
  then show "x ^ 4 \<le> c ^ 4" by simp
qed

subsection \<open>One step under a very large current\<close>

text \<open>
  The arithmetic of the step from rest with the reference step 0.01 and the external
  current 60000000 (\<open>J\<close> is the current over the capacitance): the voltage of the second
  and third evaluation is near 10000, where the opening rate of \<open>m\<close> exceeds 800 per
  unit of time, so the third evaluation sees \<open>m\<close> above 4 and the fourth sees it below
  -24 at a voltage below -420000, where the closing rate exceeds 90000.
\<close>

lemma stage_bounds_arith:
  fixes J m_r h_r n_r :: real
  assumes J: "2122065 \<le> J" "J \<le> 2122066"
    and m_r: "0 \<le> m_r" "m_r \<le> 1 / 5"
    and h_r: "3 / 4 \<le> h_r" "h_r \<le> 1"
    and n_r: "0 \<le> n_r" "n_r \<le> 1"
    and v_a: "v_a = - 65 + (21600 * (m_r ^ 3 * h_r) + 1908 * n_r ^ 4 + 567 / 25 + J) / 200"
    and d_a: "d_a = AlphaM v_a * (1 - m_r) - BetaM v_a * m_r"
    and m_b: "m_b = m_r + d_a / 200"
    and h_b: "h_b = h_r + (AlphaH v_a * (1 - h_r) - BetaH v_a * h_r) / 200"
    and n_b: "n_b = n_r + (AlphaN v_a * (1 - n_r) - BetaN v_a * n_r) / 200"
    and v_b: "v_b = - 65 + (3 / 10 * (53 / 5 - v_a) + J
                    - 120 * ((m_r ^ 3 * h_r) * (v_a - 115)) - 36 * (n_r ^ 4 * (v_a + 12))) / 200"
    and d_b: "d_b = AlphaM v_b * (1 - m_b) - BetaM v_b * m_b"
    and m_c: "m_c = m_r + d_b / 100"
    and h_c: "h_c = h_r + (AlphaH v_b * (1 - h_b) - BetaH v_b * h_b) / 100"
    and n_c: "n_c = n_r + (AlphaN v_b * (1 - n_b) - BetaN v_b * n_b) / 100"
    and v_c: "v_c = - 65 + (3 / 10 * (53 / 5 - v_b) + J
                    - 120 * ((m_b ^ 3 * h_b) * (v_b - 115)) - 36 * (n_b ^ 4 * (v_b + 12))) / 100"
  shows "10545 \<le> v_a" "v_a \<le> 10556" "8500 \<le> v_b" "v_b \<le> 10530"
    "840 \<le> d_a" "- 5300 \<le> d_b"
    "m_c \<le> - 24" "7 / 10 \<le> h_c" "- 4 \<le> n_c" "n_c \<le> 4"
    "- 5500000 \<le> v_c" "v_c \<le> - 420000"
proof -
  define P where "P = m_r ^ 3 * h_r"
  define Q where "Q = n_r ^ 4"
  have "m_r ^ 3 \<le> (1 / 5) ^ 3" using m_r by (intro power_mono)
  then have m_r_cube: "0 \<le> m_r ^ 3" "m_r ^ 3 \<le> 1 / 125"
    using m_r by (simp_all add: power3_eq_cube)
  have P: "0 \<le> P" "P \<le> 1 / 125"
  proof -
    show "0 \<le> P" unfolding P_def using m_r_cube h_r by (intro mult_nonneg_nonneg) linarith+
    have "m_r ^ 3 * h_r \<le> 1 / 125 * 1" using m_r_cube h_r by (intro mult_mono) linarith+
    then show "P \<le> 1 / 125" by (simp add: P_def)
  qed
  have Q: "0 \<le> Q" "Q \<le> 1" unfolding Q_def using n_r by (simp_all add: power_le_one)
  \<comment> \<open>the second evaluation\<close>
  have v_a_bounds: "10545 \<le> v_a" "v_a \<le> 10556"
    using J P Q unfolding v_a P_def [symmetric] Q_def [symmetric] by argo+
  have A_a: "1052 \<le> AlphaM v_a" "AlphaM v_a \<le> 10541 / 10"
    using AlphaM_above [of v_a] v_a_bounds by argo+
  have B_a: "0 < BetaM v_a" "BetaM v_a \<le> 4"
    using BetaM_bounds [of v_a] v_a_bounds by simp_all
  have d_a_bounds: "840 \<le> d_a" "d_a \<le> 1055"
  proof -
    have "1052 * (4 / 5) \<le> AlphaM v_a * (1 - m_r)"
      using A_a m_r by (intro mult_mono) linarith+
    moreover have "BetaM v_a * m_r \<le> 4 * (1 / 5)"
      using B_a m_r by (intro mult_mono) linarith+
    ultimately show "840 \<le> d_a" unfolding d_a by linarith
    have "AlphaM v_a * (1 - m_r) \<le> 10541 / 10 * 1"
      using A_a m_r by (intro mult_mono) linarith+
    moreover have "0 \<le> BetaM v_a * m_r"
      using B_a m_r by (intro mult_nonneg_nonneg) linarith+
    ultimately show "d_a \<le> 1055" unfolding d_a by linarith
  qed
  have m_b_bounds: "4 \<le> m_b" "m_b \<le> 6" using d_a_bounds m_r unfolding m_b by argo+
  have h_b_bounds: "7 / 10 \<le> h_b" "h_b \<le> 2"
  proof -
    have a: "0 \<le> AlphaH v_a * (1 - h_r)"
      using AlphaH_pos [of v_a] h_r by (intro mult_nonneg_nonneg) linarith+
    have b: "BetaH v_a * h_r \<le> 1 * 1"
      using BetaH_bounds [of v_a] h_r by (intro mult_mono) linarith+
    show "7 / 10 \<le> h_b" using a b h_r unfolding h_b by argo
    have c: "AlphaH v_a * (1 - h_r) \<le> 7 / 100 * 1"
      using AlphaH_le [of v_a] AlphaH_pos [of v_a] v_a_bounds h_r by (intro mult_mono) linarith+
    have d: "0 \<le> BetaH v_a * h_r"
      using BetaH_bounds [of v_a] h_r by (intro mult_nonneg_nonneg) linarith+
    show "h_b \<le> 2" using c d h_r unfolding h_b by argo
  qed
  have AN_a: "0 < AlphaN v_a" "AlphaN v_a \<le> 106"
    using AlphaN_above [of v_a] v_a_bounds by argo+
  have BN_a: "0 < BetaN v_a" "BetaN v_a \<le> 1 / 8"
    using BetaN_pos [of v_a] BetaN_le [of v_a] v_a_bounds by simp_all
  have n_b_bounds: "- 1 \<le> n_b" "n_b \<le> 2"
  proof -
    have a: "0 \<le> AlphaN v_a * (1 - n_r)" "AlphaN v_a * (1 - n_r) \<le> 106 * 1"
      using AN_a n_r by (intro mult_nonneg_nonneg mult_mono; linarith)+
    have b: "0 \<le> BetaN v_a * n_r" "BetaN v_a * n_r \<le> 1 / 8 * 1"
      using BN_a n_r by (intro mult_nonneg_nonneg mult_mono; linarith)+
    show "- 1 \<le> n_b" "n_b \<le> 2" using a b n_r unfolding n_b by argo+
  qed
  \<comment> \<open>the third evaluation\<close>
  have R: "0 \<le> P * (v_a - 115)" "P * (v_a - 115) \<le> 84"
  proof -
    show "0 \<le> P * (v_a - 115)" using P v_a_bounds by (intro mult_nonneg_nonneg) linarith+
    have "P * (v_a - 115) \<le> 1 / 125 * 10441"
      using P v_a_bounds by (intro mult_mono) linarith+
    then show "P * (v_a - 115) \<le> 84" by linarith
  qed
  have S: "0 \<le> Q * (v_a + 12)" "Q * (v_a + 12) \<le> 10568"
  proof -
    show "0 \<le> Q * (v_a + 12)" using Q v_a_bounds by (intro mult_nonneg_nonneg) linarith+
    have "Q * (v_a + 12) \<le> 1 * 10568" using Q v_a_bounds by (intro mult_mono) linarith+
    then show "Q * (v_a + 12) \<le> 10568" by linarith
  qed
  have v_b_bounds: "8500 \<le> v_b" "v_b \<le> 10530"
    using J R S v_a_bounds unfolding v_b P_def [symmetric] Q_def [symmetric] by argo+
  have A_b: "1695 / 2 \<le> AlphaM v_b" "AlphaM v_b \<le> 2103 / 2"
    using AlphaM_above [of v_b] v_b_bounds by argo+
  have B_b: "0 < BetaM v_b" "BetaM v_b \<le> 4"
    using BetaM_bounds [of v_b] v_b_bounds by simp_all
  have d_b_bounds: "- 5300 \<le> d_b" "d_b \<le> - 2500"
  proof -
    have "1695 / 2 * 3 \<le> AlphaM v_b * (m_b - 1)"
      using A_b m_b_bounds by (intro mult_mono) linarith+
    moreover have "0 \<le> BetaM v_b * m_b"
      using B_b m_b_bounds by (intro mult_nonneg_nonneg) linarith+
    moreover have e: "d_b = - (AlphaM v_b * (m_b - 1)) - BetaM v_b * m_b"
      unfolding d_b by (simp add: algebra_simps)
    ultimately show "d_b \<le> - 2500" by linarith
    have "AlphaM v_b * (m_b - 1) \<le> 2103 / 2 * 5"
      using A_b m_b_bounds by (intro mult_mono) linarith+
    moreover have "BetaM v_b * m_b \<le> 4 * 6"
      using B_b m_b_bounds by (intro mult_mono) linarith+
    ultimately show "- 5300 \<le> d_b" using e by linarith
  qed
  have m_c_bounds: "m_c \<le> - 24" using d_b_bounds m_r unfolding m_c by argo
  have h_c_bounds: "7 / 10 \<le> h_c"
  proof -
    have "\<bar>AlphaH v_b * (h_b - 1)\<bar> \<le> 7 / 100 * 1"
      unfolding abs_mult
      using AlphaH_le [of v_b] AlphaH_pos [of v_b] v_b_bounds h_b_bounds
      by (intro mult_mono) linarith+
    then have "AlphaH v_b * (h_b - 1) \<le> 7 / 100" by linarith
    moreover have "BetaH v_b * h_b \<le> 1 * 2"
      using BetaH_bounds [of v_b] h_b_bounds by (intro mult_mono) linarith+
    moreover have "h_c = h_r - (AlphaH v_b * (h_b - 1) + BetaH v_b * h_b) / 100"
      unfolding h_c by (simp add: field_simps)
    ultimately show ?thesis using h_r by argo
  qed
  have AN_b: "0 < AlphaN v_b" "AlphaN v_b \<le> 106"
    using AlphaN_above [of v_b] v_b_bounds by argo+
  have BN_b: "0 < BetaN v_b" "BetaN v_b \<le> 1 / 8"
    using BetaN_pos [of v_b] BetaN_le [of v_b] v_b_bounds by simp_all
  have n_c_bounds: "- 4 \<le> n_c" "n_c \<le> 4"
  proof -
    have "\<bar>AlphaN v_b * (1 - n_b)\<bar> \<le> 106 * 2"
      unfolding abs_mult using AN_b n_b_bounds by (intro mult_mono) linarith+
    moreover have "\<bar>BetaN v_b * n_b\<bar> \<le> 1 / 8 * 2"
      unfolding abs_mult using BN_b n_b_bounds by (intro mult_mono) linarith+
    ultimately have "\<bar>AlphaN v_b * (1 - n_b) - BetaN v_b * n_b\<bar> \<le> 213" by linarith
    then show "- 4 \<le> n_c" "n_c \<le> 4" using n_r unfolding n_c by argo+
  qed
  \<comment> \<open>the fourth evaluation\<close>
  have mh: "224 / 5 \<le> m_b ^ 3 * h_b" "m_b ^ 3 * h_b \<le> 432"
  proof -
    have "4 ^ 3 \<le> m_b ^ 3" "m_b ^ 3 \<le> 6 ^ 3" using m_b_bounds by (intro power_mono; linarith)+
    then have c: "64 \<le> m_b ^ 3" "m_b ^ 3 \<le> 216" by simp_all
    have "64 * (7 / 10) \<le> m_b ^ 3 * h_b" using c h_b_bounds by (intro mult_mono) linarith+
    then show "224 / 5 \<le> m_b ^ 3 * h_b" by simp
    have "m_b ^ 3 * h_b \<le> 216 * 2" using c h_b_bounds by (intro mult_mono) linarith+
    then show "m_b ^ 3 * h_b \<le> 432" by simp
  qed
  have T: "375000 \<le> (m_b ^ 3 * h_b) * (v_b - 115)" "(m_b ^ 3 * h_b) * (v_b - 115) \<le> 4500000"
  proof -
    have "224 / 5 * 8385 \<le> (m_b ^ 3 * h_b) * (v_b - 115)"
      by (rule mult_mono) (use mh v_b_bounds in linarith)+
    then show "375000 \<le> (m_b ^ 3 * h_b) * (v_b - 115)" by linarith
    have "(m_b ^ 3 * h_b) * (v_b - 115) \<le> 432 * 10415"
      by (rule mult_mono) (use mh v_b_bounds in linarith)+
    then show "(m_b ^ 3 * h_b) * (v_b - 115) \<le> 4500000" by linarith
  qed
  have U: "0 \<le> n_b ^ 4 * (v_b + 12)" "n_b ^ 4 * (v_b + 12) \<le> 170000"
  proof -
    have q: "0 \<le> n_b ^ 4" "n_b ^ 4 \<le> 2 ^ 4"
      using fourth_power_le [of 2 n_b] n_b_bounds by simp_all
    show "0 \<le> n_b ^ 4 * (v_b + 12)" using q v_b_bounds by (intro mult_nonneg_nonneg) linarith+
    have "n_b ^ 4 * (v_b + 12) \<le> 2 ^ 4 * 10542"
      by (rule mult_mono) (use q v_b_bounds in linarith)+
    then show "n_b ^ 4 * (v_b + 12) \<le> 170000" by simp
  qed
  have v_c_bounds: "- 5500000 \<le> v_c" "v_c \<le> - 420000"
    using J T U v_b_bounds unfolding v_c by argo+
  show "10545 \<le> v_a" "v_a \<le> 10556" "8500 \<le> v_b" "v_b \<le> 10530"
    "840 \<le> d_a" "- 5300 \<le> d_b"
    "m_c \<le> - 24" "7 / 10 \<le> h_c" "- 4 \<le> n_c" "n_c \<le> 4"
    "- 5500000 \<le> v_c" "v_c \<le> - 420000"
    by fact+
qed

lemma J_driven_bounds: "2122065 \<le> J_driven" "J_driven \<le> 2122066"
  by (simp_all add: J_driven_def PI_def)

lemma PI_pos: "0 < PI"
  by (simp add: PI_def)

lemma driven_ode_V:
  "hodgkin_huxley_ode driven_neuron s ! 0
     = 3 / 10 * (53 / 5 - s ! 0) + J_driven
       - 120 * (((s ! 1) ^ 3 * s ! 2) * (s ! 0 - 115)) - 36 * ((s ! 3) ^ 4 * (s ! 0 + 12))"
proof -
  have "(1080 * PI * a + 324 * PI * b + 27 / 10 * PI * c + 60000000) / (9 * PI)
          = 120 * a + 36 * b + 3 / 10 * c + 60000000 / (9 * PI)" for a b c :: real
    using PI_pos by (simp add: field_simps)
  from this [of "(s ! 1) ^ 3 * s ! 2 * (115 - s ! 0)" "(s ! 3) ^ 4 * (- 12 - s ! 0)" "53 / 5 - s ! 0"]
  show ?thesis
    by (simp add: hodgkin_huxley_ode_def driven_neuron_def Let_def sodium_current_def
          potassium_current_def leak_current_def J_driven_def algebra_simps)
qed

lemma driven_ode_gates:
  "hodgkin_huxley_ode nrn s ! 1 = AlphaM (s ! 0) * (1 - s ! 1) - BetaM (s ! 0) * s ! 1"
  "hodgkin_huxley_ode nrn s ! 2 = AlphaH (s ! 0) * (1 - s ! 2) - BetaH (s ! 0) * s ! 2"
  "hodgkin_huxley_ode nrn s ! 3 = AlphaN (s ! 0) * (1 - s ! 3) - BetaN (s ! 0) * s ! 3"
  by (simp_all add: hodgkin_huxley_ode_def Let_def)

lemma hh_driven_eq:
  "hh_driven =
     Some \<lparr>hh_integrator = \<lparr>rk_n = 4, rk_dt = 0.01, derivFunc = HodgkinHuxleyDerivatives\<rparr>,
           hh_stateVector = driven_start,
           hh_neuron = driven_neuron\<rparr>"
  by (simp add: hh_driven_def hh_fresh_eq driven_neuron_def driven_start_def)

text \<open>
  The four evaluations of the first step of \<open>hh_driven\<close>: the gates are at rest in the
  first; the bounds of \<open>stage_bounds_arith\<close> hold for the states of the others.
\<close>

lemma driven_stages:
  defines "f \<equiv> hodgkin_huxley_ode driven_neuron"
  defines "s2 \<equiv> stage2 f (1 / 100) driven_start"
    and "s3 \<equiv> stage3 f (1 / 100) driven_start"
    and "s4 \<equiv> stage4 f (1 / 100) driven_start"
  shows "f driven_start ! 1 = 0"
    and "f driven_start ! 0 = 200 * (s2 ! 0 + 65)"
    and "f s2 ! 0 = 200 * (s3 ! 0 + 65)"
    and "f s3 ! 0 = 100 * (s4 ! 0 + 65)"
    and "s2 ! 0 \<le> 10556" and "s3 ! 0 \<le> 10530"
    and "840 \<le> f s2 ! 1" and "- 5300 \<le> f s3 ! 1"
    and "s4 ! 1 \<le> - 24" and "7 / 10 \<le> s4 ! 2" and "- 4 \<le> s4 ! 3" and "s4 ! 3 \<le> 4"
    and "- 5500000 \<le> s4 ! 0" and "s4 ! 0 \<le> - 420000"
proof -
  let ?y = driven_start
  have len: "length ?y = 4" and fl: "\<forall>s. length s = 4 \<longrightarrow> length (f s) = 4"
    by (simp_all add: driven_start_def f_def)
  have y0: "?y ! 0 = - 65" "?y ! 1 = GATE_REST_M" "?y ! 2 = GATE_REST_H" "?y ! 3 = GATE_REST_N"
    by (simp_all add: driven_start_def)
  have k1: "f ?y ! 1 = 0" "f ?y ! 2 = 0" "f ?y ! 3 = 0"
    unfolding f_def driven_ode_gates y0
    by (rule GATE_REST_M_steady [unfolded RP_eq] GATE_REST_H_steady [unfolded RP_eq]
          GATE_REST_N_steady [unfolded RP_eq])+
  have s2: "s2 ! 0 = - 65 + (1 / 100) / 2 * f ?y ! 0" "s2 ! 1 = GATE_REST_M"
      "s2 ! 2 = GATE_REST_H" "s2 ! 3 = GATE_REST_N"
    unfolding s2_def by (simp_all add: nth_stage2 [OF len fl] k1 y0 del: One_nat_def)
  have s3: "s3 ! i = ?y ! i + (1 / 100) / 2 * f s2 ! i" if "i < 4" for i
    unfolding s3_def s2_def using that by (rule nth_stage3 [OF len fl])
  have s4: "s4 ! i = ?y ! i + (1 / 100) * f s3 ! i" if "i < 4" for i
    unfolding s4_def s3_def using that by (rule nth_stage4 [OF len fl])
  have e_va: "s2 ! 0 = - 65 + (21600 * (GATE_REST_M ^ 3 * GATE_REST_H) + 1908 * GATE_REST_N ^ 4
                     + 567 / 25 + J_driven) / 200"
    unfolding s2(1) f_def driven_ode_V y0 by (simp add: algebra_simps)
  have e_da: "f s2 ! 1 = AlphaM (s2 ! 0) * (1 - GATE_REST_M) - BetaM (s2 ! 0) * GATE_REST_M"
    unfolding f_def driven_ode_gates s2(2) by (rule refl)
  have e_mb: "s3 ! 1 = GATE_REST_M + f s2 ! 1 / 200"
    using s3 [of 1] by (simp add: y0 del: One_nat_def)
  have e_hb: "s3 ! 2 = GATE_REST_H
           + (AlphaH (s2 ! 0) * (1 - GATE_REST_H) - BetaH (s2 ! 0) * GATE_REST_H) / 200"
    using s3 [of 2] unfolding f_def driven_ode_gates s2(3) by (simp add: y0 del: One_nat_def)
  have e_nb: "s3 ! 3 = GATE_REST_N
           + (AlphaN (s2 ! 0) * (1 - GATE_REST_N) - BetaN (s2 ! 0) * GATE_REST_N) / 200"
    using s3 [of 3] unfolding f_def driven_ode_gates s2(4) by (simp add: y0 del: One_nat_def)
  have e_vb: "s3 ! 0 = - 65 + (3 / 10 * (53 / 5 - s2 ! 0) + J_driven
                    - 120 * ((GATE_REST_M ^ 3 * GATE_REST_H) * (s2 ! 0 - 115))
                    - 36 * (GATE_REST_N ^ 4 * (s2 ! 0 + 12))) / 200"
    using s3 [of 0] unfolding f_def driven_ode_V s2(2,3,4) by (simp add: y0 del: One_nat_def)
  have e_db: "f s3 ! 1 = AlphaM (s3 ! 0) * (1 - s3 ! 1) - BetaM (s3 ! 0) * s3 ! 1"
    unfolding f_def driven_ode_gates by (rule refl)
  have e_mc: "s4 ! 1 = GATE_REST_M + f s3 ! 1 / 100"
    using s4 [of 1] by (simp add: y0 del: One_nat_def)
  have e_hc: "s4 ! 2 = GATE_REST_H
           + (AlphaH (s3 ! 0) * (1 - s3 ! 2) - BetaH (s3 ! 0) * s3 ! 2) / 100"
    using s4 [of 2] unfolding f_def driven_ode_gates by (simp add: y0 del: One_nat_def)
  have e_nc: "s4 ! 3 = GATE_REST_N
           + (AlphaN (s3 ! 0) * (1 - s3 ! 3) - BetaN (s3 ! 0) * s3 ! 3) / 100"
    using s4 [of 3] unfolding f_def driven_ode_gates by (simp add: y0 del: One_nat_def)
  have e_vc: "s4 ! 0 = - 65 + (3 / 10 * (53 / 5 - s3 ! 0) + J_driven
                    - 120 * (((s3 ! 1) ^ 3 * s3 ! 2) * (s3 ! 0 - 115))
                    - 36 * ((s3 ! 3) ^ 4 * (s3 ! 0 + 12))) / 100"
    using s4 [of 0] unfolding f_def driven_ode_V by (simp add: y0 del: One_nat_def)
  note b = stage_bounds_arith [OF J_driven_bounds GATE_REST_M_bounds GATE_REST_H_bounds
      GATE_REST_N_bounds e_va e_da e_mb e_hb e_nb e_vb e_db e_mc e_hc e_nc e_vc]
  show "f ?y ! 1 = 0" by (rule k1)
  show "f ?y ! 0 = 200 * (s2 ! 0 + 65)" using s2(1) by simp
  show "f s2 ! 0 = 200 * (s3 ! 0 + 65)" using s3 [of 0] by (simp add: y0)
  show "f s3 ! 0 = 100 * (s4 ! 0 + 65)" using s4 [of 0] by (simp add: y0)
  show "s2 ! 0 \<le> 10556" "s3 ! 0 \<le> 10530" "840 \<le> f s2 ! 1" "- 5300 \<le> f s3 ! 1"
    "s4 ! 1 \<le> - 24" "7 / 10 \<le> s4 ! 2" "- 4 \<le> s4 ! 3" "s4 ! 3 \<le> 4"
    "- 5500000 \<le> s4 ! 0" "s4 ! 0 \<le> - 420000"
    by (rule b)+
qed

lemma hh_driven_advance:
  "HodgkinHuxleyUpdateModel hh_driven
     = (rk4_step (hodgkin_huxley_ode driven_neuron) (1 / 100) driven_start ! 0,
        Some \<lparr>hh_integrator = \<lparr>rk_n = 4, rk_dt = 0.01, derivFunc = HodgkinHuxleyDerivatives\<rparr>,
              hh_stateVector = rk4_step (hodgkin_huxley_ode driven_neuron) (1 / 100) driven_start,
              hh_neuron = cached driven_neuron
                 (stage4 (hodgkin_huxley_ode driven_neuron) (1 / 100) driven_start)\<rparr>)"
proof -
  define M where "M = \<lparr>hh_integrator = \<lparr>rk_n = 4, rk_dt = 0.01, derivFunc = HodgkinHuxleyDerivatives\<rparr>,
           hh_stateVector = driven_start, hh_neuron = driven_neuron\<rparr>"
  have wf: "hh_wf M" by (simp add: hh_wf_def M_def driven_start_def HH_SYS_DIM_def)
  show ?thesis
    using HodgkinHuxley_RK4Calculate [OF wf]
    by (simp add: hh_driven_eq M_def [symmetric]) (simp add: M_def)
qed

text \<open>
  Nothing in the code bounds the external current or clamps a gate. After this one
  advance, with a current far above the range from 0 to 500 in which the simulation sets
  it, the gate \<open>m\<close> is above 1.
\<close>

lemma gates_leave_unit_interval:
  "1 < HodgkinHuxleyGetMGate (snd (HodgkinHuxleyUpdateModel hh_driven))"
proof -
  define f where "f = hodgkin_huxley_ode driven_neuron"
  define s2 where "s2 = stage2 f (1 / 100) driven_start"
  define s3 where "s3 = stage3 f (1 / 100) driven_start"
  define s4 where "s4 = stage4 f (1 / 100) driven_start"
  note st = driven_stages [folded f_def, folded s2_def s3_def s4_def]
  have len: "length driven_start = 4" and fl: "\<forall>s. length s = 4 \<longrightarrow> length (f s) = 4"
    by (simp_all add: driven_start_def f_def)
  have m0: "driven_start ! 1 = GATE_REST_M" by (simp add: driven_start_def)
  have new: "rk4_step f (1 / 100) driven_start ! 1
      = GATE_REST_M + (2 * f s2 ! 1 + 2 * f s3 ! 1 + f s4 ! 1) / 600"
    unfolding s2_def s3_def s4_def using nth_rk4_step [OF len fl, of 1 "1 / 100"]
    by (simp add: st(1) m0 s2_def [symmetric] s3_def [symmetric] s4_def [symmetric]
          del: One_nat_def)
  have A: "0 < AlphaM (s4 ! 0)" using AlphaM_below [of "s4 ! 0"] st by linarith
  have B: "90000 \<le> BetaM (s4 ! 0)" using BetaM_bounds(3) [of "s4 ! 0"] st by argo
  have "0 \<le> AlphaM (s4 ! 0) * (1 - s4 ! 1)" using A st by (intro mult_nonneg_nonneg) linarith+
  moreover have "90000 * 24 \<le> BetaM (s4 ! 0) * (- s4 ! 1)"
    using B st by (intro mult_mono) linarith+
  moreover have "f s4 ! 1 = AlphaM (s4 ! 0) * (1 - s4 ! 1) + BetaM (s4 ! 0) * (- s4 ! 1)"
    unfolding f_def driven_ode_gates by simp
  ultimately have "2160000 \<le> f s4 ! 1" by linarith
  then have "1 < GATE_REST_M + (2 * f s2 ! 1 + 2 * f s3 ! 1 + f s4 ! 1) / 600"
    using st GATE_REST_M_bounds by argo
  then show ?thesis
    unfolding hh_driven_advance
    by (simp add: f_def [symmetric] new del: One_nat_def)
qed

text \<open>
  The same step for claim C6: the voltage after the step is below the voltage of the
  fourth evaluation, so the leak current that the accessor returns, which is that of the
  fourth evaluation, is not the leak current at the new state.
\<close>

lemma driven_voltage_after_step:
  defines "f \<equiv> hodgkin_huxley_ode driven_neuron"
  shows "rk4_step f (1 / 100) driven_start ! 0 < stage4 f (1 / 100) driven_start ! 0"
proof -
  define s2 where "s2 = stage2 f (1 / 100) driven_start"
  define s3 where "s3 = stage3 f (1 / 100) driven_start"
  define s4 where "s4 = stage4 f (1 / 100) driven_start"
  note st = driven_stages [folded f_def, folded s2_def s3_def s4_def]
  have len: "length driven_start = 4" and fl: "\<forall>s. length s = 4 \<longrightarrow> length (f s) = 4"
    by (simp_all add: driven_start_def f_def)
  have v0: "driven_start ! 0 = - 65" by (simp add: driven_start_def)
  have new: "rk4_step f (1 / 100) driven_start ! 0
      = - 65 + (200 * (s2 ! 0 + 65) + 2 * (200 * (s3 ! 0 + 65)) + 2 * (100 * (s4 ! 0 + 65))
                + f s4 ! 0) / 600"
    unfolding s2_def s3_def s4_def using nth_rk4_step [OF len fl, of 0 "1 / 100"]
    by (simp add: st(2,3,4) [unfolded s2_def s3_def s4_def] v0)
  \<comment> \<open>the sodium term of the fourth evaluation\<close>
  have "24 ^ 3 \<le> (- s4 ! 1) ^ 3" using st by (intro power_mono) linarith+
  then have cube: "13824 \<le> - ((s4 ! 1) ^ 3)" by simp
  have "13824 * (7 / 10) \<le> - ((s4 ! 1) ^ 3) * s4 ! 2"
    using cube st by (intro mult_mono) linarith+
  then have w: "9676 \<le> - ((s4 ! 1) ^ 3) * s4 ! 2" by simp
  have "9676 * 420115 \<le> (- ((s4 ! 1) ^ 3) * s4 ! 2) * (115 - s4 ! 0)"
    by (rule mult_mono) (use w st in linarith)+
  moreover have "((s4 ! 1) ^ 3 * s4 ! 2) * (s4 ! 0 - 115)
      = (- ((s4 ! 1) ^ 3) * s4 ! 2) * (115 - s4 ! 0)"
    by (simp add: algebra_simps)
  ultimately have na: "4000000000 \<le> ((s4 ! 1) ^ 3 * s4 ! 2) * (s4 ! 0 - 115)" by simp
  \<comment> \<open>the potassium term\<close>
  have q: "0 \<le> (s4 ! 3) ^ 4" "(s4 ! 3) ^ 4 \<le> 4 ^ 4"
    using fourth_power_le [of 4 "s4 ! 3"] st by simp_all
  have "(s4 ! 3) ^ 4 * (- (s4 ! 0 + 12)) \<le> 4 ^ 4 * 5500000"
    by (rule mult_mono) (use q st in linarith)+
  moreover have "(s4 ! 3) ^ 4 * (- (s4 ! 0 + 12)) = - ((s4 ! 3) ^ 4 * (s4 ! 0 + 12))"
    by (rule mult_minus_right)
  moreover have "4 ^ 4 * 5500000 = (1408000000 :: real)" by simp
  ultimately have k: "- 1408000000 \<le> (s4 ! 3) ^ 4 * (s4 ! 0 + 12)" by linarith
  have "f s4 ! 0 = 3 / 10 * (53 / 5 - s4 ! 0) + J_driven
       - 120 * (((s4 ! 1) ^ 3 * s4 ! 2) * (s4 ! 0 - 115)) - 36 * ((s4 ! 3) ^ 4 * (s4 ! 0 + 12))"
    unfolding f_def by (rule driven_ode_V)
  then have "f s4 ! 0 \<le> - 420000000000" using na k st J_driven_bounds by argo
  then show ?thesis unfolding new s4_def [symmetric] using st by argo
qed

lemma stale_leak_current:
  "HodgkinHuxleyGetILeak (snd (HodgkinHuxleyUpdateModel hh_driven))
     \<noteq> leak_current driven_neuron (hh_stateVector (the (snd (HodgkinHuxleyUpdateModel hh_driven))))"
  using driven_voltage_after_step PI_pos
  by (simp add: hh_driven_advance cached_def leak_current_def driven_neuron_def)

theorem HodgkinHuxley_currents_of_last_stage_witness:
  "hh_wf (the hh_driven) \<and>
   HodgkinHuxleyGetINa (snd (HodgkinHuxleyUpdateModel hh_driven))
     = sodium_current driven_neuron
         (stage4 (hodgkin_huxley_ode driven_neuron) (1 / 100) driven_start) \<and>
   HodgkinHuxleyGetIK (snd (HodgkinHuxleyUpdateModel hh_driven))
     = potassium_current driven_neuron
         (stage4 (hodgkin_huxley_ode driven_neuron) (1 / 100) driven_start) \<and>
   HodgkinHuxleyGetILeak (snd (HodgkinHuxleyUpdateModel hh_driven))
     = leak_current driven_neuron
         (stage4 (hodgkin_huxley_ode driven_neuron) (1 / 100) driven_start) \<and>
   HodgkinHuxleyGetILeak (snd (HodgkinHuxleyUpdateModel hh_driven))
     \<noteq> leak_current driven_neuron
         (hh_stateVector (the (snd (HodgkinHuxleyUpdateModel hh_driven))))"
  using HodgkinHuxley_currents_of_last_stage [of "the hh_driven"] stale_leak_current
  by (simp add: hh_driven_eq hh_wf_def HH_SYS_DIM_def driven_start_def
        del: HodgkinHuxleyUpdateModel.simps)

section \<open>Construction\<close>

text \<open>
  Claim C5. For every preset and step size, a construction that succeeds yields the
  documented initial values: for the Izhikevich neuron \<open>v = c - 10\<close> and \<open>u = b v\<close>; for
  the Hodgkin-Huxley neuron \<open>V\<close> is the resting potential of the configuration and each
  gate is \<open>alpha / (alpha + beta)\<close> of its own rates at that potential.
\<close>

theorem initial_values:
  "(IzhikevichInitModel calloc_ok type dt = Some izm \<longrightarrow>
      iz_stateVector izm ! 0 = cfg_c (IZHIKEVICH_PARAMETERS type) - 10 \<and>
      IzhikevichGetRecovery (Some izm)
        = cfg_b (IZHIKEVICH_PARAMETERS type) * (cfg_c (IZHIKEVICH_PARAMETERS type) - 10)) \<and>
   (HodgkinHuxleyInitModel calloc_ok' dt' = Some hhm \<longrightarrow>
      hh_stateVector hhm ! 0 = restingPotential HH_CONFIG \<and>
      HodgkinHuxleyGetMGate (Some hhm)
        = AlphaM (restingPotential HH_CONFIG)
            / (AlphaM (restingPotential HH_CONFIG) + BetaM (restingPotential HH_CONFIG)) \<and>
      HodgkinHuxleyGetHGate (Some hhm)
        = AlphaH (restingPotential HH_CONFIG)
            / (AlphaH (restingPotential HH_CONFIG) + BetaH (restingPotential HH_CONFIG)) \<and>
      HodgkinHuxleyGetNGate (Some hhm)
        = AlphaN (restingPotential HH_CONFIG)
            / (AlphaN (restingPotential HH_CONFIG) + BetaN (restingPotential HH_CONFIG)))"
  by (auto simp: IzhikevichInitModel_def HodgkinHuxleyInitModel_def RK4Init_def Let_def
        GATE_REST_M_def GATE_REST_H_def GATE_REST_N_def RP_def
        split: if_splits)

theorem initial_values_witness:
  "IzhikevichInitModel (\<lambda>k. True) REGULAR_SPIKING 0.01 = Some (the iz_fresh) \<and>
   iz_stateVector (the iz_fresh) ! 0 = - 75 \<and>
   IzhikevichGetRecovery (Some (the iz_fresh)) = - 15 \<and>
   HodgkinHuxleyInitModel (\<lambda>k. True) 0.01 = Some (the hh_fresh) \<and>
   hh_stateVector (the hh_fresh) ! 0 = - 65 \<and>
   HodgkinHuxleyGetMGate (Some (the hh_fresh)) = AlphaM (- 65) / (AlphaM (- 65) + BetaM (- 65)) \<and>
   HodgkinHuxleyGetHGate (Some (the hh_fresh)) = AlphaH (- 65) / (AlphaH (- 65) + BetaH (- 65)) \<and>
   HodgkinHuxleyGetNGate (Some (the hh_fresh)) = AlphaN (- 65) / (AlphaN (- 65) + BetaN (- 65))"
proof -
  have iz: "IzhikevichInitModel (\<lambda>k. True) REGULAR_SPIKING 0.01 = Some (the iz_fresh)"
    using iz_fresh_eq by (simp add: iz_fresh_def)
  have hh: "HodgkinHuxleyInitModel (\<lambda>k. True) 0.01 = Some (the hh_fresh)"
    using hh_fresh_eq by (simp add: hh_fresh_def)
  show ?thesis
    using initial_values [of "\<lambda>k. True" REGULAR_SPIKING "0.01" "the iz_fresh"
                             "\<lambda>k. True" "0.01" "the hh_fresh"] iz hh
    by (simp add: HH_CONFIG_def del: IzhikevichGetRecovery.simps HodgkinHuxleyGetMGate.simps
          HodgkinHuxleyGetHGate.simps HodgkinHuxleyGetNGate.simps)
qed

section \<open>Properties of the synapse\<close>

lemma replicate_12: "replicate 12 (x::'a) = [x,x,x,x,x,x,x,x,x,x,x,x]"
  by (simp add: eval_nat_numeral)

lemma syn_fresh_eq:
  "syn_fresh =
     Some \<lparr>syn_integrator = \<lparr>rk_n = 1, rk_dt = 0.01, derivFunc = AmpaGabaaDerivatives\<rparr>,
           syn_stateVector = [0],
           syn_internalBuffer = [0, 0, 0, 1.1, 0.19, 60, 0, 62, 5, 1, 0, 0],
           synapse = \<lparr>synCurrent = InternalBuffer 0, openChannels = InternalBuffer 1,
                      ntConcentration = InternalBuffer 2, alphaRate = InternalBuffer 3,
                      betaRate = InternalBuffer 4, eRev = InternalBuffer 5,
                      gMax = InternalBuffer 6, vP = InternalBuffer 7, kP = InternalBuffer 8,
                      tMax = InternalBuffer 9, vPre = InternalBuffer 10,
                      vPost = InternalBuffer 11, iSynPost = None\<rparr>\<rparr>"
  by (simp add: syn_fresh_def AmpaGabaaInitModel_def SynapseAllocMemory_def RK4Init_def
        SYN_SYS_DIM_def INTERNAL_VARS_def DEFAULT_VALUE_def T_MAX_def HH_SYN_CFG_def Let_def
        replicate_12)

lemma AmpaGabaaInitModel_wf:
  "AmpaGabaaInitModel calloc_ok synType nrnType dt = Some model \<Longrightarrow> syn_wf model"
  by (cases synType; cases nrnType)
     (auto simp: AmpaGabaaInitModel_def SynapseAllocMemory_def RK4Init_def syn_wf_def
        syn_layout_def SYN_SYS_DIM_def INTERNAL_VARS_def DEFAULT_VALUE_def Let_def replicate_12
        split: if_splits)

lemma load_vPre_after_T:
  assumes "syn_layout syn" "length buf = 12"
  shows "load \<lparr>mem_synapse = syn, mem_buffer = buf[2 := t], mem_ext = ext\<rparr> (vPre syn)
       = load \<lparr>mem_synapse = syn, mem_buffer = buf, mem_ext = ext\<rparr> (vPre syn)"
  using assms by (cases "vPre syn") (simp_all add: syn_layout_def)

lemma AmpaGabaaDerivatives_ode:
  fixes ext :: heap
  assumes "syn_wf model"
  defines "mem \<equiv> memory_of model ext" and "syn \<equiv> synapse model"
  shows "AmpaGabaaDerivatives s (mem\<lparr>mem_buffer := (mem_buffer mem)[2 := t]\<rparr>)
           = (synapse_ode (load mem (alphaRate syn)) (load mem (betaRate syn)) (syn_T model ext) s,
              mem\<lparr>mem_buffer := (mem_buffer mem)[2 := syn_T model ext]\<rparr>)"
  using assms(1) load_vPre_after_T [of "synapse model" "syn_internalBuffer model" t ext]
  by (simp add: AmpaGabaaDerivatives_def syn_T_def synapse_ode_def release_sigmoid_def
        effective_voltage_def memory_of_def mem_def syn_def syn_wf_def syn_layout_def
        INTERNAL_VARS_def Let_def)

lemma length_synapse_ode [simp]: "length (synapse_ode a b T s) = 1"
  by (simp add: synapse_ode_def)

lemma AmpaGabaa_RK4Calculate:
  fixes ext :: heap
  assumes "syn_wf model"
  defines "mem \<equiv> memory_of model ext" and "syn \<equiv> synapse model"
  defines "f \<equiv> synapse_ode (load mem (alphaRate syn)) (load mem (betaRate syn)) (syn_T model ext)"
  shows "RK4Calculate (syn_integrator model) mem (syn_stateVector model)
           = (rk4_step f (rk_dt (syn_integrator model)) (syn_stateVector model),
              mem\<lparr>mem_buffer := (mem_buffer mem)[2 := syn_T model ext]\<rparr>)"
proof -
  let ?Q = "{q. \<exists>t. q = mem\<lparr>mem_buffer := (mem_buffer mem)[2 := t]\<rparr>}"
  have "mem = mem\<lparr>mem_buffer := (mem_buffer mem)[2 := mem_buffer mem ! 2]\<rparr>" by simp
  then have p: "mem \<in> ?Q" by blast
  have g: "\<forall>s q. q \<in> ?Q \<longrightarrow> length s = 1 \<longrightarrow>
             derivFunc (syn_integrator model) s q
               = (f s, mem\<lparr>mem_buffer := (mem_buffer mem)[2 := syn_T model ext]\<rparr>) \<and>
             mem\<lparr>mem_buffer := (mem_buffer mem)[2 := syn_T model ext]\<rparr> \<in> ?Q \<and>
             length (f s) = 1"
    using assms(1) AmpaGabaaDerivatives_ode [OF assms(1), of _ ext]
    by (auto simp: syn_wf_def mem_def syn_def f_def)
  show ?thesis
    by (rule RK4Calculate_stages [where n = 1 and Q = ?Q, OF _ _ p g])
       (use assms(1) in \<open>simp_all add: syn_wf_def SYN_SYS_DIM_def\<close>)
qed

text \<open>One advance of a synapse, in full.\<close>

lemma AmpaGabaaUpdateModel_result:
  fixes ext :: heap
  assumes wf: "syn_wf model"
  defines "mem \<equiv> memory_of model ext" and "syn \<equiv> synapse model"
  defines "sv \<equiv> rk4_step (synapse_ode (load mem (alphaRate syn)) (load mem (betaRate syn))
                           (syn_T model ext))
                  (rk_dt (syn_integrator model)) (syn_stateVector model)"
  defines "i_syn \<equiv> load mem (gMax syn) * sv ! 0
                     * (load mem (eRev syn) - effective_voltage (load mem (vPost syn)) DEFAULT_V_POST)"
  shows "AmpaGabaaUpdateModel (Some model) ext
           = (True,
              Some (model\<lparr>syn_stateVector := sv,
                          syn_internalBuffer := (syn_internalBuffer model)[2 := syn_T model ext, 0 := i_syn]\<rparr>),
              (case iSynPost syn of None \<Rightarrow> ext
               | Some p \<Rightarrow> (case p of InternalBuffer i \<Rightarrow> ext | External a \<Rightarrow> ext(a := ext a + i_syn))),
              [])"
proof -
  have vpost: "load (mem\<lparr>mem_buffer := (mem_buffer mem)[2 := t]\<rparr>) (vPost syn) = load mem (vPost syn)"
    for t using wf by (cases "vPost syn") (simp_all add: syn_wf_def syn_layout_def syn_def mem_def memory_of_def)
  show ?thesis
    using wf AmpaGabaa_RK4Calculate [OF wf, of ext] vpost
    apply (simp add: mem_def [symmetric] syn_def [symmetric] sv_def [symmetric] Let_def)
    apply (cases "iSynPost syn")
     apply (simp_all add: syn_wf_def syn_layout_def syn_def [symmetric] mem_def memory_of_def
          INTERNAL_VARS_def i_syn_def effective_voltage_def)
    subgoal for p by (cases p) (simp_all add: syn_def mem_def memory_of_def i_syn_def effective_voltage_def fun_upd_def)
    done
qed

lemma syn_connected_eq:
  "syn_connected =
     Some \<lparr>syn_integrator = \<lparr>rk_n = 1, rk_dt = 0.01, derivFunc = AmpaGabaaDerivatives\<rparr>,
           syn_stateVector = [0],
           syn_internalBuffer = [0, 0, 0, 1.1, 0.19, 60, 1, 62, 5, 1, 0, 0],
           synapse = \<lparr>synCurrent = InternalBuffer 0, openChannels = InternalBuffer 1,
                      ntConcentration = InternalBuffer 2, alphaRate = InternalBuffer 3,
                      betaRate = InternalBuffer 4, eRev = InternalBuffer 5,
                      gMax = InternalBuffer 6, vP = InternalBuffer 7, kP = InternalBuffer 8,
                      tMax = InternalBuffer 9, vPre = External 0,
                      vPost = External 1, iSynPost = Some (External 2)\<rparr>\<rparr>"
  by (simp add: syn_connected_def syn_weighted_def syn_fresh_eq memory_of_def)

lemma AmpaGabaaConnectSynapse_wf:
  "syn_wf model \<Longrightarrow> AmpaGabaaConnectSynapse (Some model) pre post isyn = (True, Some model') \<Longrightarrow>
   syn_wf model'"
  by (cases pre; cases post; cases isyn) (auto simp: syn_wf_def syn_layout_def)

lemma connected_synapse_accumulates:
  fixes ext :: heap
  assumes wf: "syn_wf model"
    and conn: "AmpaGabaaConnectSynapse (Some model) (Some preV) (Some postV) (Some postIsyn)
                 = (ok, Some model1)"
    and adv: "AmpaGabaaUpdateModel (Some model1) ext = (ok', Some model2, ext', err)"
    and nz: "ext postV \<noteq> 0"
  shows "ext' postIsyn
           = ext postIsyn
             + load (memory_of model ext) (gMax (synapse model)) * syn_stateVector model2 ! 0
               * (load (memory_of model ext) (eRev (synapse model)) - ext postV)"
proof -
  have m1: "model1 = model\<lparr>synapse := (synapse model)\<lparr>vPre := External preV,
              vPost := External postV, iSynPost := Some (External postIsyn)\<rparr>\<rparr>"
    using conn by simp
  have wf1: "syn_wf model1" using wf unfolding m1 by (simp add: syn_wf_def syn_layout_def)
  show ?thesis
    using adv nz wf unfolding AmpaGabaaUpdateModel_result [OF wf1]
    by (auto simp: m1 memory_of_def effective_voltage_def syn_wf_def syn_layout_def)
qed

lemma AmpaGabaaSetMaximumConductancy_wf:
  "syn_wf model \<Longrightarrow> AmpaGabaaSetMaximumConductancy (Some model) ext g = (ok, Some model', ext') \<Longrightarrow>
   syn_wf model' \<and> ext' = ext"
  by (auto simp: syn_wf_def syn_layout_def memory_of_def Let_def INTERNAL_VARS_def)

lemma AmpaGabaaUpdateModel_wf:
  assumes "syn_wf model" "AmpaGabaaUpdateModel (Some model) ext = (ok, Some model', ext', err)"
  shows "syn_wf model'"
proof -
  have "length (rk4_step (synapse_ode (load (memory_of model ext) (alphaRate (synapse model)))
                            (load (memory_of model ext) (betaRate (synapse model)))
                            (syn_T model ext))
                  (rk_dt (syn_integrator model)) (syn_stateVector model)) = 1"
    using assms(1) by (intro length_rk4_step) (simp_all add: syn_wf_def SYN_SYS_DIM_def)
  then show ?thesis
    using assms unfolding AmpaGabaaUpdateModel_result [OF assms(1)]
    by (auto simp: syn_wf_def SYN_SYS_DIM_def INTERNAL_VARS_def)
qed

text \<open>
  Claim C1, at the post-synaptic voltage 0. The synapse \<open>syn_connected\<close> has the weight
  1 and the reversal potential 60. One advance on \<open>neuron_floats\<close>, where the
  post-synaptic voltage is 0, integrates \<open>r\<close> to 32878200622817 / 6000000000000000 and
  raises the accumulator by \<open>g_max r (E_rev + 70)\<close>, not by \<open>g_max r (E_rev - 0)\<close>.
  For a post-synaptic voltage other than 0 the accumulator rises by
  \<open>g_max r (E_rev - postV)\<close>: lemma \<open>connected_synapse_accumulates\<close>.
\<close>

theorem connected_synapse_at_zero_post_voltage:
  "(case AmpaGabaaUpdateModel syn_connected neuron_floats of
      (ok, model', ext', err) \<Rightarrow>
        syn_stateVector (the model') ! 0 = 32878200622817 / 6000000000000000 \<and>
        ext' 2 - neuron_floats 2 = 1 * (32878200622817 / 6000000000000000) * (60 - (- 70)) \<and>
        ext' 2 - neuron_floats 2 \<noteq> 1 * (32878200622817 / 6000000000000000) * (60 - neuron_floats 1))"
  using AmpaGabaaUpdateModel_result [of "the syn_connected" neuron_floats]
  by (simp add: syn_connected_eq syn_wf_def syn_layout_def INTERNAL_VARS_def SYN_SYS_DIM_def
     memory_of_def neuron_floats_def syn_T_def release_sigmoid_def effective_voltage_def
     DEFAULT_V_POST_def rk4_eval synapse_ode_def
    del: AmpaGabaaUpdateModel.simps)

text \<open>
  Claim C9. The synapse tests the value behind a voltage pointer, not the connection.
  For every synapse, connected or not: when the value behind the pre-synaptic pointer is
  0 the derivative evaluation computes the transmitter concentration from -70, and when
  it is not 0 from that value; an advance integrates \<open>r\<close> with the concentration so
  chosen; when the value behind the post-synaptic pointer is 0 the synaptic current of
  the advance is computed with the post-synaptic voltage -70, and when it is not 0 with
  that value.
\<close>

theorem voltage_value_decides_default:
  fixes ext :: heap
  assumes wf: "syn_wf model"
  defines "mem \<equiv> memory_of model ext" and "syn \<equiv> synapse model"
  defines "T_at \<equiv> release_sigmoid (load mem (tMax syn)) (load mem (vP syn)) (load mem (kP syn))"
  defines "slope \<equiv> \<lambda>T r. load mem (alphaRate syn) * T * (1 - r) - load mem (betaRate syn) * r"
  defines "T_step \<equiv> T_at (if load mem (vPre syn) = 0 then - 70 else load mem (vPre syn))"
  shows "(load mem (vPre syn) = 0 \<longrightarrow>
            AmpaGabaaDerivatives state mem
              = ([slope (T_at (- 70)) (state ! 0)],
                 store mem (ntConcentration syn) (T_at (- 70)))) \<and>
         (load mem (vPre syn) \<noteq> 0 \<longrightarrow>
            AmpaGabaaDerivatives state mem
              = ([slope (T_at (load mem (vPre syn))) (state ! 0)],
                 store mem (ntConcentration syn) (T_at (load mem (vPre syn))))) \<and>
         (case AmpaGabaaUpdateModel (Some model) ext of
            (ok, model', ext', err) \<Rightarrow>
              syn_stateVector (the model')
                = rk4_step (\<lambda>y. [slope T_step (y ! 0)]) (rk_dt (syn_integrator model))
                    (syn_stateVector model) \<and>
              (load mem (vPost syn) = 0 \<longrightarrow>
                 AmpaGabaaGetSynapticCurrent model' ext'
                   = load mem (gMax syn) * syn_stateVector (the model') ! 0
                       * (load mem (eRev syn) - (- 70))) \<and>
              (load mem (vPost syn) \<noteq> 0 \<longrightarrow>
                 AmpaGabaaGetSynapticCurrent model' ext'
                   = load mem (gMax syn) * syn_stateVector (the model') ! 0
                       * (load mem (eRev syn) - load mem (vPost syn))))"
proof -
  have T: "syn_T model ext = T_step"
    by (simp add: syn_T_def T_step_def T_at_def mem_def syn_def effective_voltage_def
          DEFAULT_V_PRE_def Let_def)
  have ode: "synapse_ode (load mem (alphaRate syn)) (load mem (betaRate syn)) T_step
               = (\<lambda>y. [slope T_step (y ! 0)])"
    by (simp add: synapse_ode_def slope_def fun_eq_iff)
  have "mem = mem\<lparr>mem_buffer := (mem_buffer mem)[2 := mem_buffer mem ! 2]\<rparr>" by simp
  then have "AmpaGabaaDerivatives state mem
      = AmpaGabaaDerivatives state (mem\<lparr>mem_buffer := (mem_buffer mem)[2 := mem_buffer mem ! 2]\<rparr>)"
    by simp
  also have "\<dots> = (synapse_ode (load mem (alphaRate syn)) (load mem (betaRate syn))
                       (syn_T model ext) state,
                    mem\<lparr>mem_buffer := (mem_buffer mem)[2 := syn_T model ext]\<rparr>)"
    unfolding mem_def syn_def by (rule AmpaGabaaDerivatives_ode [OF wf])
  finally have d: "AmpaGabaaDerivatives state mem
      = ([slope T_step (state ! 0)], store mem (ntConcentration syn) T_step)"
    using wf unfolding T ode
    by (simp add: mem_def syn_def syn_wf_def syn_layout_def)
  have u: "case AmpaGabaaUpdateModel (Some model) ext of
            (ok, model', ext', err) \<Rightarrow>
              syn_stateVector (the model')
                = rk4_step (\<lambda>y. [slope T_step (y ! 0)]) (rk_dt (syn_integrator model))
                    (syn_stateVector model) \<and>
              AmpaGabaaGetSynapticCurrent model' ext'
                   = load mem (gMax syn) * syn_stateVector (the model') ! 0
                       * (load mem (eRev syn)
                            - (if load mem (vPost syn) = 0 then - 70 else load mem (vPost syn)))"
    using wf unfolding AmpaGabaaUpdateModel_result [OF wf] T
      ode [unfolded mem_def syn_def] mem_def syn_def
    by (simp add: effective_voltage_def DEFAULT_V_POST_def memory_of_def syn_wf_def
          syn_layout_def INTERNAL_VARS_def)
  show ?thesis
    using d u by (simp add: T_step_def split: prod.splits)
qed

theorem voltage_value_decides_default_witness:
  "syn_wf (the syn_connected) \<and>
   load (memory_of (the syn_connected) (\<lambda>a. 0)) (vPre (synapse (the syn_connected))) = 0 \<and>
   fst (AmpaGabaaDerivatives [0] (memory_of (the syn_connected) (\<lambda>a. 0)))
     = [1.1 * release_sigmoid 1 62 5 (- 70)] \<and>
   load (memory_of (the syn_connected) (\<lambda>a. 0)) (vPost (synapse (the syn_connected))) = 0 \<and>
   (case AmpaGabaaUpdateModel syn_connected (\<lambda>a. 0) of
      (ok, model', ext', err) \<Rightarrow>
        AmpaGabaaGetSynapticCurrent model' ext' = 1 * syn_stateVector (the model') ! 0 * 130) \<and>
   load (memory_of (the syn_connected) neuron_floats_live) (vPre (synapse (the syn_connected)))
     = 62 \<and>
   fst (AmpaGabaaDerivatives [0] (memory_of (the syn_connected) neuron_floats_live))
     = [11 / 20] \<and>
   load (memory_of (the syn_connected) neuron_floats_live) (vPost (synapse (the syn_connected)))
     = 30 \<and>
   (case AmpaGabaaUpdateModel syn_connected neuron_floats_live of
      (ok, model', ext', err) \<Rightarrow>
        syn_stateVector (the model') = [32878200622817 / 6000000000000000] \<and>
        AmpaGabaaGetSynapticCurrent model' ext'
          = 1 * (32878200622817 / 6000000000000000) * (60 - 30))"
proof -
  have zero:
    "syn_wf (the syn_connected) \<and>
     load (memory_of (the syn_connected) (\<lambda>a. 0)) (vPre (synapse (the syn_connected))) = 0 \<and>
     fst (AmpaGabaaDerivatives [0] (memory_of (the syn_connected) (\<lambda>a. 0)))
       = [1.1 * release_sigmoid 1 62 5 (- 70)] \<and>
     load (memory_of (the syn_connected) (\<lambda>a. 0)) (vPost (synapse (the syn_connected))) = 0 \<and>
     (case AmpaGabaaUpdateModel syn_connected (\<lambda>a. 0) of
        (ok, model', ext', err) \<Rightarrow>
          AmpaGabaaGetSynapticCurrent model' ext' = 1 * syn_stateVector (the model') ! 0 * 130)"
    using voltage_value_decides_default [of "the syn_connected" "\<lambda>a. 0" "[0]"]
    by (simp add: syn_connected_eq syn_wf_def syn_layout_def INTERNAL_VARS_def SYN_SYS_DIM_def
          memory_of_def case_prod_beta
          del: AmpaGabaaUpdateModel.simps)
  have live:
    "load (memory_of (the syn_connected) neuron_floats_live) (vPre (synapse (the syn_connected)))
       = 62 \<and>
     fst (AmpaGabaaDerivatives [0] (memory_of (the syn_connected) neuron_floats_live))
       = [11 / 20] \<and>
     load (memory_of (the syn_connected) neuron_floats_live) (vPost (synapse (the syn_connected)))
       = 30 \<and>
     (case AmpaGabaaUpdateModel syn_connected neuron_floats_live of
        (ok, model', ext', err) \<Rightarrow>
          syn_stateVector (the model') = [32878200622817 / 6000000000000000] \<and>
          AmpaGabaaGetSynapticCurrent model' ext'
            = 1 * (32878200622817 / 6000000000000000) * (60 - 30))"
    using voltage_value_decides_default [of "the syn_connected" neuron_floats_live "[0]"]
    by (simp add: syn_connected_eq syn_wf_def syn_layout_def INTERNAL_VARS_def SYN_SYS_DIM_def
          memory_of_def neuron_floats_live_def release_sigmoid_def rk4_eval case_prod_beta
          del: AmpaGabaaUpdateModel.simps)
  from zero live show ?thesis
    by (elim conjE, intro conjI) assumption+
qed

section \<open>Null handles\<close>

text \<open>
  Claim C7, as the code has it. Every public operation of the three models, called with
  a null handle, returns its neutral value (0 or false) and changes nothing; the advance
  of the synapse alone also writes one line to \<^verbatim>\<open>stderr\<close>.
\<close>

theorem null_handle_operations:
  "IzhikevichSetExternalCurrent None x = (False, None) \<and>
   IzhikevichUpdateModel None = (0, None) \<and>
   IzhikevichGetRecovery None = 0 \<and>
   IzhikevichFreeModel None = (False, None) \<and>
   HodgkinHuxleySetExternalCurent None x = (False, None) \<and>
   HodgkinHuxleyUpdateModel None = (0, None) \<and>
   HodgkinHuxleyGetINa None = 0 \<and>
   HodgkinHuxleyGetIK None = 0 \<and>
   HodgkinHuxleyGetILeak None = 0 \<and>
   HodgkinHuxleyGetMGate None = 0 \<and>
   HodgkinHuxleyGetHGate None = 0 \<and>
   HodgkinHuxleyGetNGate None = 0 \<and>
   HodgkinHuxleyFreeModel None = (False, None) \<and>
   AmpaGabaaConnectSynapse None preVolt postVolt postIsyn = (False, None) \<and>
   AmpaGabaaSetMaximumConductancy None ext g = (False, None, ext) \<and>
   AmpaGabaaGetSynapticCurrent None ext = 0 \<and>
   AmpaGabaaFreeModel None = (False, None) \<and>
   AmpaGabaaUpdateModel None ext = (False, None, ext, [null_model_message])"
  by simp

text \<open>
  Claim C7 as stated fails: the advance of the synapse on a null handle is not silent, it
  writes to \<^verbatim>\<open>stderr\<close>.
\<close>

theorem null_synapse_advance_writes_stderr:
  "snd (snd (snd (AmpaGabaaUpdateModel None (\<lambda>a. 0)))) \<noteq> []"
  by simp

end
